theory Spec2Isabelle
  imports Main "HOL-Library.Word"
begin

unbundle bit_operations_syntax

section \<open>Display-resource discovery: CDRMUtils (xbmc/windowing/gbm/drm/DRMUtils.cpp)\<close>

text \<open>
  The development embeds four member functions of \<^verbatim>\<open>CDRMUtils\<close>:
  \<^verbatim>\<open>FindPlanes\<close>, \<^verbatim>\<open>FindPreferredMode\<close>, \<^verbatim>\<open>GetResolutionInfo\<close> and
  \<^verbatim>\<open>DrmFbGetFromBo\<close> (with \<^verbatim>\<open>DrmFbDestroyCallback\<close>).
  Raw pointers into the owning vectors (\<^verbatim>\<open>m_crtc\<close>, \<^verbatim>\<open>m_gui_plane\<close>, \<^verbatim>\<open>m_video_plane\<close>,
  \<^verbatim>\<open>m_mode\<close>) are indices into the corresponding list, \<open>None\<close> being \<^verbatim>\<open>nullptr\<close>.
\<close>

subsection \<open>Machine types and outcomes\<close>

type_synonym u16 = "16 word"
type_synonym u32 = "32 word"
type_synonym u64 = "64 word"

text \<open>
  A run of a C++ function either returns a value or executes an operation whose behaviour
  the language leaves undefined (a null or past-the-end dereference, a read through a
  deleted pointer, a signed overflow, a shift by the width of the type or more).
\<close>

datatype 'a outcome = Undefined | Returns 'a

fun obind :: "'a outcome \<Rightarrow> ('a \<Rightarrow> 'b outcome) \<Rightarrow> 'b outcome" where
  "obind Undefined f = Undefined"
| "obind (Returns x) f = f x"

subsection \<open>Constants of the kernel interface (drm_fourcc.h, drm_mode.h)\<close>

definition DRM_FORMAT_NV12 :: u32 where
  "DRM_FORMAT_NV12 = 0x3231564E"

definition DRM_FORMAT_ARGB8888 :: u32 where
  "DRM_FORMAT_ARGB8888 = 0x34325241"

definition DRM_FORMAT_XRGB8888 :: u32 where
  "DRM_FORMAT_XRGB8888 = 0x34325258"

subsection \<open>Object wrappers\<close>

text \<open>
  Modelled from the spec: the wrapper classes are declared outside this file. Each is the record
  of the attributes its accessors return (\<^verbatim>\<open>GetPlaneId\<close>, \<^verbatim>\<open>GetPossibleCrtcs\<close>,
  \<^verbatim>\<open>GetFormat\<close>, \<^verbatim>\<open>GetCrtcId\<close>, \<^verbatim>\<open>GetEncoderId\<close>, \<^verbatim>\<open>IsConnected\<close>);
  \<^verbatim>\<open>GetModesCount\<close> and \<^verbatim>\<open>GetModeForIndex\<close> are the length of and the access into the
  connector's ordered mode list. The fields of \<^verbatim>\<open>drmModeModeInfo\<close> are those of the kernel
  structure that the functions read.
\<close>

record CDRMPlane =
  plane_id :: u32
  plane_possible_crtcs :: u32
  plane_formats :: "u32 list"
  plane_format :: u32

record CDRMCrtc =
  crtc_id :: u32

record CDRMEncoder =
  encoder_id :: u32
  encoder_crtc_id :: u32
  encoder_possible_crtcs :: u32

record drmModeModeInfo =
  clock :: u32
  hdisplay :: u16
  vdisplay :: u16
  vrefresh :: u32
  flags :: u32
  type :: u32

record CDRMConnector =
  connector_id :: u32
  connector_encoder_id :: u32
  connected :: bool
  modes :: "drmModeModeInfo list"

text \<open>
  Modelled from the spec: \<^verbatim>\<open>CDRMPlane::SupportsFormat\<close> is declared outside this file; a
  plane carries a set of supported pixel formats and supports a format iff it is in the set.
\<close>

definition SupportsFormat :: "CDRMPlane \<Rightarrow> u32 \<Rightarrow> bool" where
  "SupportsFormat plane fmt = (fmt \<in> set (plane_formats plane))"

text \<open>The members of \<^verbatim>\<open>CDRMUtils\<close> that the four functions read or write.\<close>

record CDRMUtils =
  m_connector :: "CDRMConnector option"
  m_encoder :: "CDRMEncoder option"
  m_crtc :: "nat option"
  m_video_plane :: "nat option"
  m_gui_plane :: "nat option"
  m_mode :: "nat option"
  m_crtcs :: "CDRMCrtc option list"
  m_planes :: "CDRMPlane list"

subsection \<open>FindPlanes\<close>

text \<open>
  \<^verbatim>\<open>std::find_if\<close> over a vector: the position of the first element satisfying the
  predicate, \<open>None\<close> for the end iterator.
\<close>

fun find_if :: "('a \<Rightarrow> bool) \<Rightarrow> 'a list \<Rightarrow> nat option" where
  "find_if P [] = None"
| "find_if P (x # xs) = (if P x then Some 0 else map_option Suc (find_if P xs))"

text \<open>
  \<^verbatim>\<open>FindPlanes\<close> calls \<^verbatim>\<open>->get()\<close> on the iterators without comparing them with
  \<^verbatim>\<open>m_planes.end()\<close>. Dereferencing the end iterator is undefined; what the read yields
  is a parameter of the model: \<open>Trap\<close> makes the run undefined, \<open>ReadsNull\<close> lets the slot
  past the last element read as a null pointer.
\<close>

datatype past_end = Trap | ReadsNull

fun iter_get :: "past_end \<Rightarrow> nat option \<Rightarrow> nat option outcome" where
  "iter_get pe (Some k) = Returns (Some k)"
| "iter_get Trap None = Undefined"
| "iter_get ReadsNull None = Returns None"

text \<open>\<^verbatim>\<open>plane->GetPossibleCrtcs() & (1 << i)\<close>, for \<open>i < 32\<close>.\<close>

definition on_crtc :: "nat \<Rightarrow> CDRMPlane \<Rightarrow> bool" where
  "on_crtc i plane = (plane_possible_crtcs plane AND push_bit i 1 \<noteq> 0)"

text \<open>The two lambdas passed to \<^verbatim>\<open>std::find_if\<close>.\<close>

definition video_pred :: "nat \<Rightarrow> CDRMPlane \<Rightarrow> bool" where
  "video_pred i plane =
     (if on_crtc i plane then SupportsFormat plane DRM_FORMAT_NV12 else False)"

definition gui_pred :: "nat \<Rightarrow> u32 \<Rightarrow> CDRMPlane \<Rightarrow> bool" where
  "gui_pred i videoPlaneId plane =
     (if on_crtc i plane
      then plane_id plane \<noteq> videoPlaneId \<and>
           (videoPlaneId = 0 \<or> SupportsFormat plane DRM_FORMAT_ARGB8888) \<and>
           SupportsFormat plane DRM_FORMAT_XRGB8888
      else False)"

definition video_plane_id :: "CDRMPlane list \<Rightarrow> nat option \<Rightarrow> u32" where
  "video_plane_id planes videoPlane =
     (case videoPlane of None \<Rightarrow> 0 | Some k \<Rightarrow> plane_id (planes ! k))"

text \<open>
  One iteration of the loop over \<^verbatim>\<open>m_crtcs\<close>. The result pairs the flag ``the loop was left
  by \<^verbatim>\<open>break\<close>'' with the members after the iteration. The shift \<^verbatim>\<open>1 << i\<close> is evaluated
  once per plane; it is undefined for \<open>i \<ge> 32\<close>.
\<close>

definition tentative_gui :: "nat \<Rightarrow> CDRMCrtc \<Rightarrow> nat option \<Rightarrow> CDRMUtils \<Rightarrow> (bool \<times> CDRMUtils) outcome" where
  "tentative_gui i crtc g s =
     (if g \<noteq> None then
        (if m_crtc s = None then
           (case m_encoder s of
              None \<Rightarrow> Undefined
            | Some enc \<Rightarrow>
                if encoder_crtc_id enc = crtc_id crtc
                then Returns (False, s\<lparr>m_crtc := Some i, m_gui_plane := g\<rparr>)
                else Returns (False, s))
         else Returns (False, s))
      else Returns (False, s))"

definition scan_crtc :: "past_end \<Rightarrow> nat \<Rightarrow> CDRMUtils \<Rightarrow> (bool \<times> CDRMUtils) outcome" where
  "scan_crtc pe i s =
     (case m_crtcs s ! i of
        None \<Rightarrow> Returns (False, s)
      | Some crtc \<Rightarrow>
          if m_planes s \<noteq> [] \<and> 32 \<le> i then Undefined
          else
            let videoPlane = find_if (video_pred i) (m_planes s);
                videoPlaneId = video_plane_id (m_planes s) videoPlane;
                guiPlane = find_if (gui_pred i videoPlaneId) (m_planes s)
            in obind (iter_get pe videoPlane) (\<lambda>v.
               obind (if v \<noteq> None then iter_get pe guiPlane else Returns None) (\<lambda>g.
                 if v \<noteq> None \<and> g \<noteq> None
                 then Returns (True, s\<lparr>m_crtc := Some i, m_video_plane := v, m_gui_plane := g\<rparr>)
                 else obind (iter_get pe guiPlane) (\<lambda>g'. tentative_gui i crtc g' s))))"

fun FindPlanes_loop :: "past_end \<Rightarrow> nat list \<Rightarrow> CDRMUtils \<Rightarrow> CDRMUtils outcome" where
  "FindPlanes_loop pe [] s = Returns s"
| "FindPlanes_loop pe (i # is) s =
     (case scan_crtc pe i s of
        Undefined \<Rightarrow> Undefined
      | Returns (brk, s') \<Rightarrow> if brk then Returns s' else FindPlanes_loop pe is s')"

text \<open>
  After the loop the function logs \<^verbatim>\<open>m_gui_plane->GetPlaneId()\<close> unconditionally (a null
  \<^verbatim>\<open>m_gui_plane\<close> is dereferenced there) and its only \<^verbatim>\<open>return\<close> statement returns
  \<^verbatim>\<open>true\<close>.
\<close>

definition FindPlanes :: "past_end \<Rightarrow> CDRMUtils \<Rightarrow> (bool \<times> CDRMUtils) outcome" where
  "FindPlanes pe s =
     obind (FindPlanes_loop pe [0..<length (m_crtcs s)] s) (\<lambda>s'.
       case m_gui_plane s' of
         None \<Rightarrow> Undefined
       | Some g \<Rightarrow> Returns (True, s'))"

text \<open>
  The two candidates of the scan of CRTC \<open>i\<close>, when both exist: the first plane attachable to
  CRTC \<open>i\<close> that supports NV12, and the first attachable plane with a different identity that
  supports both ARGB8888 and XRGB8888.
\<close>

definition both_candidates :: "nat \<Rightarrow> CDRMPlane list \<Rightarrow> (nat \<times> nat) option" where
  "both_candidates i planes =
     (case find_if (video_pred i) planes of
        None \<Rightarrow> None
      | Some v \<Rightarrow>
          (case find_if (gui_pred i (plane_id (planes ! v))) planes of
             None \<Rightarrow> None
           | Some g \<Rightarrow> Some (v, g)))"

subsection \<open>FindPreferredMode\<close>

definition DRM_MODE_TYPE_PREFERRED :: u32 where
  "DRM_MODE_TYPE_PREFERRED = 8"

definition INT_MAX :: int where
  "INT_MAX = 2147483647"

definition preferred :: "drmModeModeInfo \<Rightarrow> bool" where
  "preferred current_mode = (type current_mode AND DRM_MODE_TYPE_PREFERRED \<noteq> 0)"

text \<open>
  \<^verbatim>\<open>hdisplay * vdisplay\<close>: both operands are \<^verbatim>\<open>uint16_t\<close> and are promoted to \<^verbatim>\<open>int\<close>;
  this is the product before any overflow.
\<close>

definition mode_area :: "drmModeModeInfo \<Rightarrow> int" where
  "mode_area current_mode = uint (hdisplay current_mode) * uint (vdisplay current_mode)"

text \<open>
  The loop over the connector's modes, from index \<open>i\<close> on, with the loop variable \<^verbatim>\<open>area\<close>
  and the member \<^verbatim>\<open>m_mode\<close>. A product beyond \<^verbatim>\<open>INT_MAX\<close> is a signed overflow.
\<close>

fun FindPreferredMode_loop ::
  "drmModeModeInfo list \<Rightarrow> nat \<Rightarrow> int \<Rightarrow> nat option \<Rightarrow> nat option outcome" where
  "FindPreferredMode_loop [] i area mode = Returns mode"
| "FindPreferredMode_loop (current_mode # rest) i area mode =
     (if preferred current_mode then Returns (Some i)
      else if INT_MAX < mode_area current_mode then Undefined
      else if area < mode_area current_mode
        then FindPreferredMode_loop rest (Suc i) (mode_area current_mode) (Some i)
        else FindPreferredMode_loop rest (Suc i) area mode)"

definition FindPreferredMode :: "CDRMUtils \<Rightarrow> (bool \<times> CDRMUtils) outcome" where
  "FindPreferredMode s =
     (case m_connector s of
        None \<Rightarrow> Undefined
      | Some connector \<Rightarrow>
          obind (FindPreferredMode_loop (modes connector) 0 0 (m_mode s)) (\<lambda>mode.
            Returns (mode \<noteq> None, s\<lparr>m_mode := mode\<rparr>)))"

subsection \<open>GetResolutionInfo\<close>

definition DRM_MODE_FLAG_INTERLACE :: u32 where
  "DRM_MODE_FLAG_INTERLACE = 0x10"

definition DRM_MODE_FLAG_3D_MASK :: u32 where
  "DRM_MODE_FLAG_3D_MASK = 0x7C000"

definition DRM_MODE_FLAG_3D_TOP_AND_BOTTOM :: u32 where
  "DRM_MODE_FLAG_3D_TOP_AND_BOTTOM = 0x1C000"

definition DRM_MODE_FLAG_3D_SIDE_BY_SIDE_HALF :: u32 where
  "DRM_MODE_FLAG_3D_SIDE_BY_SIDE_HALF = 0x20000"

text \<open>
  The integer and flag members of \<^verbatim>\<open>RESOLUTION_INFO\<close> that \<^verbatim>\<open>GetResolutionInfo\<close> assigns.
  The members computed in floating point (\<^verbatim>\<open>fRefreshRate\<close>, \<^verbatim>\<open>fPixelRatio\<close>,
  \<^verbatim>\<open>iSubtitles\<close>) and the formatted \<^verbatim>\<open>strMode\<close> are outside the embedding.
\<close>

record RESOLUTION_INFO =
  iScreenWidth :: int
  iScreenHeight :: int
  iWidth :: int
  iHeight :: int
  bFullScreen :: bool
  dwFlags :: u32

text \<open>
  The \<^verbatim>\<open>D3DPRESENTFLAG_*\<close> macros and the default constructor of \<^verbatim>\<open>RESOLUTION_INFO\<close> are
  declared outside this file: the four flag values are the parameter \<open>D\<close>, the
  default-constructed descriptor is the parameter \<open>res\<close>, and the setting
  \<^verbatim>\<open>videoscreen.limitguisize\<close> is the parameter \<open>limit\<close>.
\<close>

record D3DPRESENTFLAG =
  D3DPRESENTFLAG_INTERLACED :: u32
  D3DPRESENTFLAG_PROGRESSIVE :: u32
  D3DPRESENTFLAG_MODE3DSBS :: u32
  D3DPRESENTFLAG_MODE3DTB :: u32

definition limit_gui_size :: "int \<Rightarrow> drmModeModeInfo \<Rightarrow> RESOLUTION_INFO \<Rightarrow> RESOLUTION_INFO" where
  "limit_gui_size limit mode res =
     (if 0 < limit \<and> 1920 < iScreenWidth res \<and> 1080 < iScreenHeight res then
        (if limit = 1 then res\<lparr>iWidth := 1280, iHeight := 720\<rparr>
         else if limit = 2 then
           res\<lparr>iWidth := (if 30 < vrefresh mode then 1280 else 1920),
               iHeight := (if 30 < vrefresh mode then 720 else 1080)\<rparr>
         else if limit = 3 then res\<lparr>iWidth := 1920, iHeight := 1080\<rparr>
         else if limit = 4 then
           res\<lparr>iWidth := (if 30 < vrefresh mode then 1920 else iScreenWidth res),
               iHeight := (if 30 < vrefresh mode then 1080 else iScreenHeight res)\<rparr>
         else res)
      else res)"

definition present_flags :: "D3DPRESENTFLAG \<Rightarrow> drmModeModeInfo \<Rightarrow> RESOLUTION_INFO \<Rightarrow> RESOLUTION_INFO" where
  "present_flags D mode res =
     (if flags mode AND DRM_MODE_FLAG_3D_MASK \<noteq> 0 then
        (if flags mode AND DRM_MODE_FLAG_3D_TOP_AND_BOTTOM \<noteq> 0
           then res\<lparr>dwFlags := D3DPRESENTFLAG_MODE3DTB D\<rparr>
         else if flags mode AND DRM_MODE_FLAG_3D_SIDE_BY_SIDE_HALF \<noteq> 0
           then res\<lparr>dwFlags := D3DPRESENTFLAG_MODE3DSBS D\<rparr>
         else res)
      else if flags mode AND DRM_MODE_FLAG_INTERLACE \<noteq> 0
        then res\<lparr>dwFlags := D3DPRESENTFLAG_INTERLACED D\<rparr>
      else res\<lparr>dwFlags := D3DPRESENTFLAG_PROGRESSIVE D\<rparr>)"

definition GetResolutionInfo ::
  "D3DPRESENTFLAG \<Rightarrow> RESOLUTION_INFO \<Rightarrow> int \<Rightarrow> drmModeModeInfo \<Rightarrow> RESOLUTION_INFO" where
  "GetResolutionInfo D res limit mode =
     (let res1 = res\<lparr>iScreenWidth := uint (hdisplay mode), iScreenHeight := uint (vdisplay mode)\<rparr>;
          res2 = res1\<lparr>iWidth := iScreenWidth res1, iHeight := iScreenHeight res1\<rparr>;
          res3 = limit_gui_size limit mode res2;
          res4 = res3\<lparr>bFullScreen := True\<rparr>
      in present_flags D mode res4)"

subsection \<open>DrmFbGetFromBo and DrmFbDestroyCallback\<close>

definition DRM_MODE_FB_MODIFIERS :: u32 where
  "DRM_MODE_FB_MODIFIERS = 2"

definition DRM_FORMAT_MOD_INVALID :: u64 where
  "DRM_FORMAT_MOD_INVALID = 0x00FFFFFFFFFFFFFF"

text \<open>
  Heap objects of type \<^verbatim>\<open>drm_fb\<close> live in a store from addresses to descriptors; a pointer
  is an address, \<^verbatim>\<open>new\<close> binds an address and \<^verbatim>\<open>delete\<close> unbinds it.
\<close>

type_synonym addr = nat

record drm_fb =
  fb_bo :: addr
  fb_id :: u32
  fb_format :: u32

text \<open>
  A buffer object as the binder sees it: its geometry, the handle, stride and offset of each of
  its planes, its modifier, and the user data with the destroy function registered by
  \<^verbatim>\<open>gbm_bo_set_user_data\<close> (\<open>bo_destroy_user_data\<close> holds iff that function is
  \<^verbatim>\<open>DrmFbDestroyCallback\<close>).
\<close>

record gbm_bo =
  bo_addr :: addr
  bo_width :: u32
  bo_height :: u32
  bo_planes :: "(u32 \<times> u32 \<times> u32) list"
  bo_modifier :: u64
  bo_handle :: u32
  bo_stride :: u32
  bo_user_data :: "addr option"
  bo_destroy_user_data :: bool

text \<open>The requests sent to the driver, with their arguments (the file descriptor left out).\<close>

datatype drm_call =
    AddFB2WithModifiers u32 u32 u32 "u32 list" "u32 list" "u32 list" "u64 list" u32
  | AddFB2 u32 u32 u32 "u32 list" "u32 list" "u32 list" u32
  | RmFB u32

record drm_world =
  heap :: "addr \<Rightarrow> drm_fb option"
  calls :: "drm_call list"

text \<open>
  What the surroundings decide during one call: whether the build defines
  \<^verbatim>\<open>HAS_GBM_MODIFIERS\<close>, the address \<^verbatim>\<open>new drm_fb\<close> returns, the indeterminate initial
  content of the new descriptor's \<^verbatim>\<open>fb_id\<close>, and the driver's answer to a request: the
  returned \<^verbatim>\<open>int\<close> and the identity it stores through \<^verbatim>\<open>&fb->fb_id\<close> when it succeeds.
\<close>

record platform =
  has_gbm_modifiers :: bool
  new_drm_fb :: addr
  new_fb_id :: u32
  ioctl :: "drm_call \<Rightarrow> int \<times> u32"

definition DrmFbDestroyCallback :: "addr \<Rightarrow> drm_world \<Rightarrow> drm_world outcome" where
  "DrmFbDestroyCallback data w =
     (case heap w data of
        None \<Rightarrow> Undefined
      | Some fb \<Rightarrow>
          Returns (w\<lparr>calls := calls w @ (if 0 < fb_id fb then [RmFB (fb_id fb)] else []),
                    heap := (heap w)(data := None)\<rparr>))"

text \<open>\<^verbatim>\<open>m_gui_plane->GetFormat()\<close>.\<close>

definition gui_plane_format :: "CDRMUtils \<Rightarrow> u32 outcome" where
  "gui_plane_format this =
     (case m_gui_plane this of
        None \<Rightarrow> Undefined
      | Some k \<Rightarrow>
          if k < length (m_planes this) then Returns (plane_format (m_planes this ! k))
          else Undefined)"

text \<open>The four-element argument arrays, zero-initialised and filled per plane.\<close>

definition array4 :: "'a::zero list \<Rightarrow> 'a list" where
  "array4 xs = take 4 (xs @ replicate 4 0)"

definition fb_handles :: "platform \<Rightarrow> gbm_bo \<Rightarrow> u32 list" where
  "fb_handles P bo =
     (if has_gbm_modifiers P then array4 (map fst (bo_planes bo)) else array4 [bo_handle bo])"

definition fb_strides :: "platform \<Rightarrow> gbm_bo \<Rightarrow> u32 list" where
  "fb_strides P bo =
     (if has_gbm_modifiers P then array4 (map (fst \<circ> snd) (bo_planes bo))
      else array4 [bo_stride bo])"

definition fb_offsets :: "platform \<Rightarrow> gbm_bo \<Rightarrow> u32 list" where
  "fb_offsets P bo =
     (if has_gbm_modifiers P then array4 (map (snd \<circ> snd) (bo_planes bo)) else array4 [])"

definition fb_modifiers :: "platform \<Rightarrow> gbm_bo \<Rightarrow> u64 list" where
  "fb_modifiers P bo =
     (if has_gbm_modifiers P then array4 (map (\<lambda>_. bo_modifier bo) (bo_planes bo))
      else array4 [])"

definition fb_flags :: "platform \<Rightarrow> gbm_bo \<Rightarrow> u32" where
  "fb_flags P bo =
     (if fb_modifiers P bo ! 0 \<noteq> 0 \<and> fb_modifiers P bo ! 0 \<noteq> DRM_FORMAT_MOD_INVALID
      then 0 OR DRM_MODE_FB_MODIFIERS else 0)"

definition modifier_request :: "platform \<Rightarrow> u32 \<Rightarrow> gbm_bo \<Rightarrow> drm_call" where
  "modifier_request P fmt bo =
     AddFB2WithModifiers (bo_width bo) (bo_height bo) fmt (fb_handles P bo) (fb_strides P bo)
       (fb_offsets P bo) (fb_modifiers P bo) (fb_flags P bo)"

definition legacy_request :: "platform \<Rightarrow> u32 \<Rightarrow> gbm_bo \<Rightarrow> drm_call" where
  "legacy_request P fmt bo =
     AddFB2 (bo_width bo) (bo_height bo) fmt (fb_handles P bo) (fb_strides P bo)
       (fb_offsets P bo) (fb_flags P bo)"

text \<open>
  Lines 61 to 70: the lookup of the framebuffer cached on the buffer. A hit returns the cached
  pointer; a miss continues in the world left by the teardown of a descriptor of another format.
\<close>

datatype cached = Hit addr | Miss drm_world

definition cached_fb :: "u32 \<Rightarrow> gbm_bo \<Rightarrow> drm_world \<Rightarrow> cached outcome" where
  "cached_fb fmt bo w =
     (case bo_user_data bo of
        None \<Rightarrow> Returns (Miss w)
      | Some a \<Rightarrow>
          (case heap w a of
             None \<Rightarrow> Undefined
           | Some fb \<Rightarrow>
               if fmt = fb_format fb then Returns (Hit a)
               else obind (DrmFbDestroyCallback a w) (\<lambda>w'. Returns (Miss w'))))"

text \<open>
  Lines 72 to 142: construction and registration of a new descriptor. With
  \<^verbatim>\<open>HAS_GBM_MODIFIERS\<close> the loop over the buffer's planes writes past the arrays when the
  buffer reports more than four planes.
\<close>

definition store_fb_id :: "addr \<Rightarrow> u32 \<Rightarrow> drm_world \<Rightarrow> drm_world" where
  "store_fb_id a new_id w =
     w\<lparr>heap := (heap w)(a := map_option (\<lambda>fb. fb\<lparr>fb_id := new_id\<rparr>) (heap w a))\<rparr>"

definition set_user_data :: "addr \<Rightarrow> gbm_bo \<Rightarrow> gbm_bo" where
  "set_user_data a bo = bo\<lparr>bo_user_data := Some a, bo_destroy_user_data := True\<rparr>"

definition register_fb ::
  "platform \<Rightarrow> u32 \<Rightarrow> gbm_bo \<Rightarrow> drm_world \<Rightarrow> (addr option \<times> gbm_bo \<times> drm_world) outcome" where
  "register_fb P fmt bo w =
     (if has_gbm_modifiers P \<and> 4 < length (bo_planes bo) then Undefined
      else
        let fb = new_drm_fb P;
            w1 = w\<lparr>heap := (heap w)(fb \<mapsto> \<lparr>fb_bo = bo_addr bo, fb_id = new_fb_id P, fb_format = fmt\<rparr>)\<rparr>;
            w2 = w1\<lparr>calls := calls w1 @ [modifier_request P fmt bo]\<rparr>;
            ret = fst (ioctl P (modifier_request P fmt bo))
        in if ret < 0 then
             (let w3 = w2\<lparr>calls := calls w2 @ [legacy_request P fmt bo]\<rparr>;
                  ret' = fst (ioctl P (legacy_request P fmt bo))
              in if ret' < 0 then Returns (None, bo, w3\<lparr>heap := (heap w3)(fb := None)\<rparr>)
                 else Returns (Some fb, set_user_data fb bo,
                        store_fb_id fb (snd (ioctl P (legacy_request P fmt bo))) w3))
           else Returns (Some fb, set_user_data fb bo,
                  store_fb_id fb (snd (ioctl P (modifier_request P fmt bo))) w2))"

definition DrmFbGetFromBo ::
  "CDRMUtils \<Rightarrow> platform \<Rightarrow> gbm_bo \<Rightarrow> drm_world \<Rightarrow> (addr option \<times> gbm_bo \<times> drm_world) outcome" where
  "DrmFbGetFromBo this P bo w =
     obind (gui_plane_format this) (\<lambda>fmt.
       obind (cached_fb fmt bo w) (\<lambda>c.
         case c of
           Hit a \<Rightarrow> Returns (Some a, bo, w)
         | Miss w' \<Rightarrow> register_fb P fmt bo w'))"

subsection \<open>Concrete configurations\<close>

definition plane :: "u32 \<Rightarrow> u32 \<Rightarrow> u32 list \<Rightarrow> CDRMPlane" where
  "plane pid crtcs fmts =
     \<lparr>plane_id = pid, plane_possible_crtcs = crtcs, plane_formats = fmts,
      plane_format = DRM_FORMAT_XRGB8888\<rparr>"

text \<open>A session before plane selection, its encoder bound to the CRTC with identity 10.\<close>

definition session :: "CDRMCrtc option list \<Rightarrow> CDRMPlane list \<Rightarrow> CDRMUtils" where
  "session crtcs planes =
     \<lparr>m_connector = None,
      m_encoder = Some \<lparr>encoder_id = 1, encoder_crtc_id = 10, encoder_possible_crtcs = 3\<rparr>,
      m_crtc = None, m_video_plane = None, m_gui_plane = None, m_mode = None,
      m_crtcs = crtcs, m_planes = planes\<rparr>"

text \<open>One CRTC whose only plane supports NV12 alone: no plane can serve the GUI.\<close>

definition video_only :: CDRMUtils where
  "video_only = session [Some \<lparr>crtc_id = 10\<rparr>] [plane 31 1 [DRM_FORMAT_NV12]]"

text \<open>
  Two CRTCs. On the first, plane 31 supports NV12 and both RGB formats and plane 32 supports
  NV12 only; on the second, plane 33 supports NV12 and plane 34 both RGB formats.
\<close>

definition two_crtcs :: CDRMUtils where
  "two_crtcs =
     session [Some \<lparr>crtc_id = 10\<rparr>, Some \<lparr>crtc_id = 11\<rparr>]
       [plane 31 1 [DRM_FORMAT_NV12, DRM_FORMAT_ARGB8888, DRM_FORMAT_XRGB8888],
        plane 32 1 [DRM_FORMAT_NV12],
        plane 33 2 [DRM_FORMAT_NV12],
        plane 34 2 [DRM_FORMAT_ARGB8888, DRM_FORMAT_XRGB8888]]"

text \<open>
  Two CRTCs. The first has a GUI-capable plane only and is the encoder's CRTC; the second has
  a video plane and a GUI plane.
\<close>

definition gui_then_pair :: CDRMUtils where
  "gui_then_pair =
     session [Some \<lparr>crtc_id = 10\<rparr>, Some \<lparr>crtc_id = 11\<rparr>]
       [plane 31 1 [DRM_FORMAT_XRGB8888],
        plane 33 2 [DRM_FORMAT_NV12],
        plane 34 2 [DRM_FORMAT_ARGB8888, DRM_FORMAT_XRGB8888]]"

text \<open>
  A descriptor and flag values for evaluating \<^verbatim>\<open>GetResolutionInfo\<close>: four distinct flag
  bits and a default-constructed descriptor with no flag set.
\<close>

definition flag_bits :: D3DPRESENTFLAG where
  "flag_bits =
     \<lparr>D3DPRESENTFLAG_INTERLACED = 1, D3DPRESENTFLAG_PROGRESSIVE = 4,
      D3DPRESENTFLAG_MODE3DSBS = 8, D3DPRESENTFLAG_MODE3DTB = 16\<rparr>"

definition blank_res :: RESOLUTION_INFO where
  "blank_res =
     \<lparr>iScreenWidth = 0, iScreenHeight = 0, iWidth = 0, iHeight = 0, bFullScreen = False,
      dwFlags = 0\<rparr>"

definition raw_mode :: "u16 \<Rightarrow> u16 \<Rightarrow> u32 \<Rightarrow> u32 \<Rightarrow> drmModeModeInfo" where
  "raw_mode w h rate mode_type =
     \<lparr>clock = 0, hdisplay = w, vdisplay = h, vrefresh = rate, flags = 0, type = mode_type\<rparr>"

text \<open>Sessions whose connector reports the given modes, no mode selected yet.\<close>

definition with_modes :: "drmModeModeInfo list \<Rightarrow> CDRMUtils" where
  "with_modes ms =
     (session [] [])\<lparr>m_connector :=
        Some \<lparr>connector_id = 7, connector_encoder_id = 1, connected = True, modes = ms\<rparr>\<rparr>"

definition four_modes :: "drmModeModeInfo list" where
  "four_modes =
     [raw_mode 1920 1080 60 0, raw_mode 3840 2160 30 0, raw_mode 3840 2160 60 0,
      raw_mode 1280 720 60 0]"

definition empty_mode :: "drmModeModeInfo list" where
  "empty_mode = [raw_mode 0 1080 60 0]"

text \<open>
  A session whose GUI plane is selected (its format is XRGB8888), a single-plane buffer with no
  user data, an empty world, and three drivers: one rejecting every request, one accepting
  only the legacy request, one accepting the modifier-aware request.
\<close>

definition gui_selected :: CDRMUtils where
  "gui_selected =
     (session [Some \<lparr>crtc_id = 10\<rparr>] [plane 34 1 [DRM_FORMAT_ARGB8888, DRM_FORMAT_XRGB8888]])
       \<lparr>m_crtc := Some 0, m_gui_plane := Some 0\<rparr>"

definition fresh_bo :: gbm_bo where
  "fresh_bo =
     \<lparr>bo_addr = 100, bo_width = 1920, bo_height = 1080, bo_planes = [(5, 7680, 0)],
      bo_modifier = 0, bo_handle = 5, bo_stride = 7680, bo_user_data = None,
      bo_destroy_user_data = False\<rparr>"

definition empty_world :: drm_world where
  "empty_world = \<lparr>heap = (\<lambda>a. None), calls = []\<rparr>"

definition rejecting :: platform where
  "rejecting =
     \<lparr>has_gbm_modifiers = True, new_drm_fb = 1, new_fb_id = 0, ioctl = (\<lambda>c. (- 22, 0))\<rparr>"

definition legacy_only :: platform where
  "legacy_only =
     \<lparr>has_gbm_modifiers = True, new_drm_fb = 1, new_fb_id = 0,
      ioctl = (\<lambda>c. case c of AddFB2 w h f hs ps os fl \<Rightarrow> (0, 42) | _ \<Rightarrow> (- 22, 0))\<rparr>"

definition accepting :: platform where
  "accepting =
     \<lparr>has_gbm_modifiers = True, new_drm_fb = 1, new_fb_id = 0, ioctl = (\<lambda>c. (0, 41))\<rparr>"

text \<open>The buffer and the world after a registration that stored framebuffer 42 at address 1.\<close>

definition bound_bo :: gbm_bo where
  "bound_bo = fresh_bo\<lparr>bo_user_data := Some 1, bo_destroy_user_data := True\<rparr>"

definition bound_world :: drm_world where
  "bound_world =
     \<lparr>heap = (\<lambda>a. None)(1 \<mapsto> \<lparr>fb_bo = 100, fb_id = 42, fb_format = DRM_FORMAT_XRGB8888\<rparr>),
      calls = []\<rparr>"

section \<open>Properties\<close>

subsection \<open>Evaluation of the concrete configurations\<close>

lemmas cfg_defs = plane_def session_def video_only_def two_crtcs_def gui_then_pair_def
  DRM_FORMAT_NV12_def DRM_FORMAT_ARGB8888_def DRM_FORMAT_XRGB8888_def

lemmas FindPlanes_defs = FindPlanes_def scan_crtc_def tentative_gui_def video_plane_id_def
  video_pred_def gui_pred_def on_crtc_def SupportsFormat_def both_candidates_def

lemma FindPlanes_two_crtcs:
  "FindPlanes ReadsNull two_crtcs =
     Returns (True, two_crtcs\<lparr>m_crtc := Some 1, m_video_plane := Some 2, m_gui_plane := Some 3\<rparr>)"
  by (simp add: cfg_defs FindPlanes_defs upt_rec)

subsection \<open>The plane search\<close>

lemma find_if_Some:
  "find_if P xs = Some k \<Longrightarrow> k < length xs \<and> P (xs ! k) \<and> (\<forall>j<k. \<not> P (xs ! j))"
proof (induction xs arbitrary: k)
  case Nil
  then show ?case by simp
next
  case (Cons x xs)
  show ?case
  proof (cases "P x")
    case True
    with Cons.prems show ?thesis by simp
  next
    case False
    with Cons.prems obtain k' where k': "find_if P xs = Some k'" "k = Suc k'"
      by auto
    from Cons.IH [OF k'(1)] have ih: "k' < length xs" "P (xs ! k')" "\<forall>j<k'. \<not> P (xs ! j)"
      by simp_all
    have "\<forall>j<k. \<not> P ((x # xs) ! j)"
    proof (intro allI impI)
      fix j assume "j < k"
      then show "\<not> P ((x # xs) ! j)"
        using False ih(3) k'(2) by (cases j) simp_all
    qed
    with ih k'(2) show ?thesis by simp
  qed
qed

lemma find_if_None: "find_if P xs = None \<longleftrightarrow> (\<forall>x\<in>set xs. \<not> P x)"
  by (induction xs) auto

lemma iter_get_Returns: "iter_get pe it = Returns r \<Longrightarrow> r = it"
  by (cases pe; cases it) simp_all

lemma tentative_gui_Returns:
  assumes "tentative_gui i crtc g s = Returns (brk, s')"
  shows "\<not> brk \<and> (s' = s \<or> (g \<noteq> None \<and> s' = s\<lparr>m_crtc := Some i, m_gui_plane := g\<rparr>))"
  using assms by (auto simp: tentative_gui_def split: if_splits option.splits)

text \<open>What one iteration can do when it returns.\<close>

lemma scan_crtc_Returns:
  assumes "scan_crtc pe i s = Returns (brk, s')"
  shows "(brk \<and> (\<exists>v g. find_if (video_pred i) (m_planes s) = Some v \<and>
             find_if (gui_pred i (plane_id (m_planes s ! v))) (m_planes s) = Some g \<and>
             s' = s\<lparr>m_crtc := Some i, m_video_plane := Some v, m_gui_plane := Some g\<rparr>))
       \<or> (\<not> brk \<and> (\<exists>c g. s' = s\<lparr>m_crtc := c, m_gui_plane := g\<rparr>))"
proof (cases "m_crtcs s ! i")
  case None
  with assms have "\<not> brk" "s' = s\<lparr>m_crtc := m_crtc s, m_gui_plane := m_gui_plane s\<rparr>"
    by (simp_all add: scan_crtc_def)
  then show ?thesis by blast
next
  case (Some crtc)
  let ?vp = "find_if (video_pred i) (m_planes s)"
  let ?gp = "find_if (gui_pred i (video_plane_id (m_planes s) ?vp)) (m_planes s)"
  from assms Some have run:
    "obind (iter_get pe ?vp) (\<lambda>v.
       obind (if v \<noteq> None then iter_get pe ?gp else Returns None) (\<lambda>g.
         if v \<noteq> None \<and> g \<noteq> None
         then Returns (True, s\<lparr>m_crtc := Some i, m_video_plane := v, m_gui_plane := g\<rparr>)
         else obind (iter_get pe ?gp) (\<lambda>g'. tentative_gui i crtc g' s))) = Returns (brk, s')"
    by (simp add: scan_crtc_def Let_def split: if_splits)
  then obtain v where v: "iter_get pe ?vp = Returns v"
    by (cases "iter_get pe ?vp") simp_all
  then have v_eq: "v = ?vp" by (rule iter_get_Returns)
  from run v obtain g where g: "(if v \<noteq> None then iter_get pe ?gp else Returns None) = Returns g"
    by (cases "if v \<noteq> None then iter_get pe ?gp else Returns None") simp_all
  show ?thesis
  proof (cases "v \<noteq> None \<and> g \<noteq> None")
    case True
    then obtain kv kg where k: "v = Some kv" "g = Some kg" by auto
    with g have "iter_get pe ?gp = Returns (Some kg)" by simp
    then have "?gp = Some kg" by (auto dest: iter_get_Returns)
    with k v_eq have "find_if (gui_pred i (plane_id (m_planes s ! kv))) (m_planes s) = Some kg"
      by (simp add: video_plane_id_def)
    moreover from run v g True k
    have "brk" "s' = s\<lparr>m_crtc := Some i, m_video_plane := Some kv, m_gui_plane := Some kg\<rparr>"
      by simp_all
    ultimately show ?thesis using k v_eq by auto
  next
    case False
    with run v g obtain g' where g': "iter_get pe ?gp = Returns g'"
      and t: "tentative_gui i crtc g' s = Returns (brk, s')"
      by (cases "iter_get pe ?gp") (simp_all split: if_splits)
    from tentative_gui_Returns [OF t] have "\<not> brk"
      and "s' = s \<or> s' = s\<lparr>m_crtc := Some i, m_gui_plane := g'\<rparr>" by auto
    moreover have "s = s\<lparr>m_crtc := m_crtc s, m_gui_plane := m_gui_plane s\<rparr>" by simp
    ultimately show ?thesis by metis
  qed
qed


subsection \<open>FindPlanes: what a returning run has done\<close>

lemma FindPlanes_loop_video:
  assumes "FindPlanes_loop pe is s = Returns s'" and "m_video_plane s = None"
  shows "m_planes s' = m_planes s \<and>
         (m_video_plane s' = None \<or>
          (\<exists>g v. m_gui_plane s' = Some g \<and> m_video_plane s' = Some v \<and> g \<noteq> v \<and>
                 plane_id (m_planes s ! g) \<noteq> plane_id (m_planes s ! v)))"
  using assms
proof (induction "is" arbitrary: s)
  case Nil
  then show ?case by simp
next
  case (Cons i "is")
  from Cons.prems(1) obtain brk s1 where sc: "scan_crtc pe i s = Returns (brk, s1)"
    by (cases "scan_crtc pe i s") auto
  show ?case
  proof (cases brk)
    case True
    with sc Cons.prems(1) have s': "s' = s1" by simp
    from scan_crtc_Returns [OF sc] True obtain v g
      where v: "find_if (video_pred i) (m_planes s) = Some v"
        and g: "find_if (gui_pred i (plane_id (m_planes s ! v))) (m_planes s) = Some g"
        and s1: "s1 = s\<lparr>m_crtc := Some i, m_video_plane := Some v, m_gui_plane := Some g\<rparr>"
      by auto
    from find_if_Some [OF g] have gp: "gui_pred i (plane_id (m_planes s ! v)) (m_planes s ! g)"
      by simp
    then have "plane_id (m_planes s ! g) \<noteq> plane_id (m_planes s ! v)"
      by (simp add: gui_pred_def split: if_splits)
    then show ?thesis using s' s1 by auto
  next
    case False
    with sc Cons.prems(1) have loop: "FindPlanes_loop pe is s1 = Returns s'" by simp
    from scan_crtc_Returns [OF sc] False obtain c g where s1: "s1 = s\<lparr>m_crtc := c, m_gui_plane := g\<rparr>"
      by auto
    with Cons.prems(2) have "m_video_plane s1 = None" "m_planes s1 = m_planes s" by simp_all
    with Cons.IH [OF loop] show ?thesis by simp
  qed
qed

lemma FindPlanes_never_false: "FindPlanes pe s \<noteq> Returns (False, s')"
  by (cases "FindPlanes_loop pe [0..<length (m_crtcs s)] s")
     (auto simp: FindPlanes_def split: option.splits)


text \<open>
  C1. The claim: \<^verbatim>\<open>FindPlanes\<close> reports failure (returns false) whenever no CRTC yields at
  least a GUI plane. The code does not: no run returns \<^verbatim>\<open>false\<close>, and for a CRTC whose
  only plane cannot serve the GUI the run ends in the dereference of a past-the-end iterator or
  of the null \<^verbatim>\<open>m_gui_plane\<close>, whatever the slot past the end reads as.
\<close>

theorem FindPlanes_never_reports_failure:
  "FindPlanes pe s \<noteq> Returns (False, s') \<and>
   FindPlanes ReadsNull video_only = Undefined \<and>
   FindPlanes Trap video_only = Undefined"
proof -
  have "FindPlanes ReadsNull video_only = Undefined"
    by (simp add: cfg_defs FindPlanes_defs)
  moreover have "FindPlanes Trap video_only = Undefined"
    by (simp add: cfg_defs FindPlanes_defs)
  ultimately show ?thesis
    using FindPlanes_never_false [of pe s s'] by simp
qed

text \<open>
  C3. When \<^verbatim>\<open>FindPlanes\<close>, started with no video plane selected, returns with both a GUI
  plane and a video plane selected, the two are different planes with different identities.
\<close>

theorem FindPlanes_roles_distinct:
  assumes "m_video_plane s = None"
    and "FindPlanes pe s = Returns (ok, s')"
    and "m_gui_plane s' = Some g" and "m_video_plane s' = Some v"
  shows "g \<noteq> v \<and> plane_id (m_planes s' ! g) \<noteq> plane_id (m_planes s' ! v)"
proof -
  from assms(2) have loop: "FindPlanes_loop pe [0..<length (m_crtcs s)] s = Returns s'"
    by (cases "FindPlanes_loop pe [0..<length (m_crtcs s)] s")
       (auto simp: FindPlanes_def split: option.splits)
  from FindPlanes_loop_video [OF loop assms(1)] assms(3,4) show ?thesis by auto
qed


theorem FindPlanes_roles_distinct_witness:
  "m_video_plane two_crtcs = None \<and>
   FindPlanes ReadsNull two_crtcs =
     Returns (True, two_crtcs\<lparr>m_crtc := Some 1, m_video_plane := Some 2, m_gui_plane := Some 3\<rparr>) \<and>
   (3::nat) \<noteq> 2 \<and>
   plane_id (m_planes two_crtcs ! 3) \<noteq> plane_id (m_planes two_crtcs ! 2)"
proof -
  let ?s' = "two_crtcs\<lparr>m_crtc := Some 1, m_video_plane := Some 2, m_gui_plane := Some 3\<rparr>"
  have h: "m_video_plane two_crtcs = None"
    by (simp add: cfg_defs)
  have "(3::nat) \<noteq> 2 \<and> plane_id (m_planes ?s' ! 3) \<noteq> plane_id (m_planes ?s' ! 2)"
    by (rule FindPlanes_roles_distinct [OF h FindPlanes_two_crtcs]) simp_all
  with h FindPlanes_two_crtcs show ?thesis by simp
qed

subsection \<open>FindPlanes: a CRTC without both candidates\<close>

text \<open>A CRTC with both candidates is committed and the loop is left, on every reading.\<close>

lemma scan_crtc_both:
  assumes "i < 32" and "m_crtcs s ! i = Some crtc"
    and "both_candidates i (m_planes s) = Some (v, g)"
  shows "scan_crtc pe i s =
           Returns (True, s\<lparr>m_crtc := Some i, m_video_plane := Some v, m_gui_plane := Some g\<rparr>)"
proof -
  from assms(3) have v: "find_if (video_pred i) (m_planes s) = Some v"
    and g: "find_if (gui_pred i (plane_id (m_planes s ! v))) (m_planes s) = Some g"
    by (auto simp: both_candidates_def split: option.splits)
  show ?thesis
    using assms(1,2) v g by (simp add: scan_crtc_def video_plane_id_def)
qed

text \<open>
  A CRTC without both candidates has one of the two iterators at \<^verbatim>\<open>m_planes.end()\<close>, and
  line 209 calls \<^verbatim>\<open>->get()\<close> on it: the scan of an existing CRTC never continues with the
  next CRTC unless a past-the-end read has returned. The tentative GUI-only commitment of
  lines 217 to 224 is reached in no other way.
\<close>

lemma scan_crtc_no_pair_undefined:
  assumes "m_crtcs s ! i = Some crtc" and "both_candidates i (m_planes s) = None"
  shows "scan_crtc Trap i s = Undefined"
proof (cases "find_if (video_pred i) (m_planes s)")
  case None
  with assms(1) show ?thesis by (simp add: scan_crtc_def)
next
  case (Some v)
  with assms(2) have "find_if (gui_pred i (plane_id (m_planes s ! v))) (m_planes s) = None"
    by (simp add: both_candidates_def split: option.splits)
  with Some assms(1) show ?thesis by (simp add: scan_crtc_def video_plane_id_def)
qed

lemma scan_crtc_Trap_continues:
  assumes "scan_crtc Trap i s = Returns (False, s')"
  shows "m_crtcs s ! i = None \<and> s' = s"
proof (cases "m_crtcs s ! i")
  case None
  with assms show ?thesis by (simp add: scan_crtc_def)
next
  case (Some crtc)
  show ?thesis
  proof (cases "both_candidates i (m_planes s)")
    case None
    from scan_crtc_no_pair_undefined [OF Some None] assms show ?thesis by simp
  next
    case (Some vg)
    obtain v g where "vg = (v, g)" by (cases vg)
    with Some have vg: "find_if (video_pred i) (m_planes s) = Some v"
      "find_if (gui_pred i (plane_id (m_planes s ! v))) (m_planes s) = Some g"
      by (auto simp: both_candidates_def split: option.splits)
    with \<open>m_crtcs s ! i = Some crtc\<close> assms show ?thesis
      by (simp add: scan_crtc_def video_plane_id_def split: if_splits)
  qed
qed

text \<open>
  C2. The claim: when CRTC \<open>i\<close> has a plane supporting NV12 and a distinct plane supporting both
  RGB formats, \<^verbatim>\<open>FindPlanes\<close> commits the first such CRTC with both planes, also after a
  GUI-only commitment for an earlier CRTC. The code does not get that far. In the configuration
  below CRTC 1 is the first CRTC with both planes; CRTC 0, the encoder's, has a GUI-capable
  plane only, so its video iterator is \<^verbatim>\<open>m_planes.end()\<close> and line 209 dereferences it: the run
  is undefined before CRTC 1 is scanned.
\<close>

theorem FindPlanes_pair_after_gui_only_undefined:
  "m_crtcs gui_then_pair ! 1 = Some \<lparr>crtc_id = 11\<rparr> \<and>
   on_crtc 1 (m_planes gui_then_pair ! 1) \<and>
   SupportsFormat (m_planes gui_then_pair ! 1) DRM_FORMAT_NV12 \<and>
   on_crtc 1 (m_planes gui_then_pair ! 2) \<and>
   SupportsFormat (m_planes gui_then_pair ! 2) DRM_FORMAT_ARGB8888 \<and>
   SupportsFormat (m_planes gui_then_pair ! 2) DRM_FORMAT_XRGB8888 \<and>
   plane_id (m_planes gui_then_pair ! 1) \<noteq> plane_id (m_planes gui_then_pair ! 2) \<and>
   both_candidates 1 (m_planes gui_then_pair) = Some (1, 2) \<and>
   both_candidates 0 (m_planes gui_then_pair) = None \<and>
   find_if (video_pred 0) (m_planes gui_then_pair) = None \<and>
   scan_crtc Trap 0 gui_then_pair = Undefined \<and>
   FindPlanes Trap gui_then_pair = Undefined"
proof -
  have planes: "on_crtc 1 (m_planes gui_then_pair ! 1) \<and>
      SupportsFormat (m_planes gui_then_pair ! 1) DRM_FORMAT_NV12 \<and>
      on_crtc 1 (m_planes gui_then_pair ! 2) \<and>
      SupportsFormat (m_planes gui_then_pair ! 2) DRM_FORMAT_ARGB8888 \<and>
      SupportsFormat (m_planes gui_then_pair ! 2) DRM_FORMAT_XRGB8888"
    by (simp add: cfg_defs FindPlanes_defs)
  have ids: "m_crtcs gui_then_pair ! 1 = Some \<lparr>crtc_id = 11\<rparr> \<and>
      plane_id (m_planes gui_then_pair ! 1) \<noteq> plane_id (m_planes gui_then_pair ! 2)"
    by (simp add: cfg_defs)
  have pair: "both_candidates 1 (m_planes gui_then_pair) = Some (1, 2)"
    by (simp add: cfg_defs FindPlanes_defs)
  have none: "both_candidates 0 (m_planes gui_then_pair) = None \<and>
      find_if (video_pred 0) (m_planes gui_then_pair) = None"
    by (simp add: cfg_defs FindPlanes_defs)
  have c0: "m_crtcs gui_then_pair ! 0 = Some \<lparr>crtc_id = 10\<rparr>"
    by (simp add: cfg_defs)
  from none have scan: "scan_crtc Trap 0 gui_then_pair = Undefined"
    by (simp add: scan_crtc_no_pair_undefined [OF c0])
  have "[0..<length (m_crtcs gui_then_pair)] = [0, 1]"
    by (simp add: cfg_defs upt_rec)
  with scan have "FindPlanes Trap gui_then_pair = Undefined"
    by (simp add: FindPlanes_def)
  with planes ids pair none scan show ?thesis by simp
qed

text \<open>
  A second configuration, evaluated with the slot past the end reading as a null pointer. On
  CRTC 0 plane 32 supports NV12 and the distinct plane 31 supports both RGB formats, yet the
  search takes plane 31, the first NV12 plane, as the video candidate, finds no other GUI plane
  for CRTC 0 and commits CRTC 1; with a trapping past-the-end dereference this run is undefined
  as well.
\<close>

lemma FindPlanes_two_crtcs_first_nv12_plane:
  "m_crtcs two_crtcs ! 0 = Some \<lparr>crtc_id = 10\<rparr> \<and>
   on_crtc 0 (m_planes two_crtcs ! 1) \<and>
   SupportsFormat (m_planes two_crtcs ! 1) DRM_FORMAT_NV12 \<and>
   on_crtc 0 (m_planes two_crtcs ! 0) \<and>
   SupportsFormat (m_planes two_crtcs ! 0) DRM_FORMAT_ARGB8888 \<and>
   SupportsFormat (m_planes two_crtcs ! 0) DRM_FORMAT_XRGB8888 \<and>
   plane_id (m_planes two_crtcs ! 0) \<noteq> plane_id (m_planes two_crtcs ! 1) \<and>
   FindPlanes ReadsNull two_crtcs =
     Returns (True, two_crtcs\<lparr>m_crtc := Some 1, m_video_plane := Some 2, m_gui_plane := Some 3\<rparr>) \<and>
   FindPlanes Trap two_crtcs = Undefined"
proof -
  have "FindPlanes Trap two_crtcs = Undefined"
    by (simp add: cfg_defs FindPlanes_defs upt_rec)
  moreover have "on_crtc 0 (m_planes two_crtcs ! 1) \<and>
      SupportsFormat (m_planes two_crtcs ! 1) DRM_FORMAT_NV12 \<and>
      on_crtc 0 (m_planes two_crtcs ! 0) \<and>
      SupportsFormat (m_planes two_crtcs ! 0) DRM_FORMAT_ARGB8888 \<and>
      SupportsFormat (m_planes two_crtcs ! 0) DRM_FORMAT_XRGB8888"
    by (simp add: cfg_defs FindPlanes_defs)
  moreover have "m_crtcs two_crtcs ! 0 = Some \<lparr>crtc_id = 10\<rparr> \<and>
      plane_id (m_planes two_crtcs ! 0) \<noteq> plane_id (m_planes two_crtcs ! 1)"
    by (simp add: cfg_defs)
  ultimately show ?thesis using FindPlanes_two_crtcs by simp
qed

subsection \<open>FindPreferredMode\<close>

text \<open>A preferred mode at position k ends the loop with that mode.\<close>

lemma FindPreferredMode_loop_preferred:
  assumes "find_if preferred ms = Some k"
    and "\<forall>j<k. mode_area (ms ! j) \<le> INT_MAX"
  shows "FindPreferredMode_loop ms i area mode = Returns (Some (i + k))"
  using assms
proof (induction ms arbitrary: i k area mode)
  case Nil
  then show ?case by simp
next
  case (Cons m ms)
  show ?case
  proof (cases "preferred m")
    case True
    with Cons.prems(1) show ?thesis by simp
  next
    case False
    with Cons.prems(1) obtain k' where k': "find_if preferred ms = Some k'" "k = Suc k'"
      by auto
    from Cons.prems(2) k'(2) have fit: "mode_area m \<le> INT_MAX"
      and rest: "\<forall>j<k'. mode_area (ms ! j) \<le> INT_MAX"
      by auto
    from Cons.IH [OF k'(1) rest]
    have "\<And>a md. FindPreferredMode_loop ms (Suc i) a md = Returns (Some (Suc i + k'))" .
    with False fit k'(2) show ?thesis by simp
  qed
qed

text \<open>Without a preferred mode the loop keeps the earliest mode of the largest area.\<close>

lemma FindPreferredMode_loop_largest:
  assumes "\<forall>m\<in>set ms. \<not> preferred m \<and> mode_area m \<le> INT_MAX"
  shows "(FindPreferredMode_loop ms i area mode = Returns mode \<and>
            (\<forall>m\<in>set ms. mode_area m \<le> area))
       \<or> (\<exists>k<length ms. FindPreferredMode_loop ms i area mode = Returns (Some (i + k)) \<and>
            area < mode_area (ms ! k) \<and>
            (\<forall>j<length ms. mode_area (ms ! j) \<le> mode_area (ms ! k)) \<and>
            (\<forall>j<k. mode_area (ms ! j) < mode_area (ms ! k)))"
  using assms
proof (induction ms arbitrary: i area mode)
  case Nil
  then show ?case by simp
next
  case (Cons m ms)
  from Cons.prems have m: "\<not> preferred m" "mode_area m \<le> INT_MAX"
    and rest: "\<forall>m\<in>set ms. \<not> preferred m \<and> mode_area m \<le> INT_MAX"
    by simp_all
  show ?case
  proof (cases "area < mode_area m")
    case True
    then have step: "FindPreferredMode_loop (m # ms) i area mode =
        FindPreferredMode_loop ms (Suc i) (mode_area m) (Some i)"
      using m by simp
    from Cons.IH [OF rest, of "Suc i" "mode_area m" "Some i"]
    show ?thesis
    proof (elim disjE conjE exE)
      assume r: "FindPreferredMode_loop ms (Suc i) (mode_area m) (Some i) = Returns (Some i)"
        and le: "\<forall>m'\<in>set ms. mode_area m' \<le> mode_area m"
      have "\<forall>j<length (m # ms). mode_area ((m # ms) ! j) \<le> mode_area ((m # ms) ! 0)"
      proof (intro allI impI)
        fix j assume "j < length (m # ms)"
        then show "mode_area ((m # ms) ! j) \<le> mode_area ((m # ms) ! 0)"
          using le by (cases j) simp_all
      qed
      with r step True have "0 < length (m # ms) \<and>
          FindPreferredMode_loop (m # ms) i area mode = Returns (Some (i + 0)) \<and>
          area < mode_area ((m # ms) ! 0) \<and>
          (\<forall>j<length (m # ms). mode_area ((m # ms) ! j) \<le> mode_area ((m # ms) ! 0)) \<and>
          (\<forall>j<0. mode_area ((m # ms) ! j) < mode_area ((m # ms) ! 0))"
        by simp
      then show ?thesis by blast
    next
      fix k
      assume k: "k < length ms"
        and r: "FindPreferredMode_loop ms (Suc i) (mode_area m) (Some i) = Returns (Some (Suc i + k))"
        and gt: "mode_area m < mode_area (ms ! k)"
        and mx: "\<forall>j<length ms. mode_area (ms ! j) \<le> mode_area (ms ! k)"
        and first: "\<forall>j<k. mode_area (ms ! j) < mode_area (ms ! k)"
      have mx': "\<forall>j<length (m # ms). mode_area ((m # ms) ! j) \<le> mode_area ((m # ms) ! Suc k)"
      proof (intro allI impI)
        fix j assume "j < length (m # ms)"
        then show "mode_area ((m # ms) ! j) \<le> mode_area ((m # ms) ! Suc k)"
          using mx gt by (cases j) simp_all
      qed
      have first': "\<forall>j<Suc k. mode_area ((m # ms) ! j) < mode_area ((m # ms) ! Suc k)"
      proof (intro allI impI)
        fix j assume "j < Suc k"
        then show "mode_area ((m # ms) ! j) < mode_area ((m # ms) ! Suc k)"
          using first gt by (cases j) simp_all
      qed
      from k r step True gt mx' first' have "Suc k < length (m # ms) \<and>
          FindPreferredMode_loop (m # ms) i area mode = Returns (Some (i + Suc k)) \<and>
          area < mode_area ((m # ms) ! Suc k) \<and>
          (\<forall>j<length (m # ms). mode_area ((m # ms) ! j) \<le> mode_area ((m # ms) ! Suc k)) \<and>
          (\<forall>j<Suc k. mode_area ((m # ms) ! j) < mode_area ((m # ms) ! Suc k))"
        by simp
      then show ?thesis by blast
    qed
  next
    case False
    then have step: "FindPreferredMode_loop (m # ms) i area mode =
        FindPreferredMode_loop ms (Suc i) area mode"
      using m by simp
    from Cons.IH [OF rest, of "Suc i" area mode]
    show ?thesis
    proof (elim disjE conjE exE)
      assume "FindPreferredMode_loop ms (Suc i) area mode = Returns mode"
        and "\<forall>m'\<in>set ms. mode_area m' \<le> area"
      with step False show ?thesis by simp
    next
      fix k
      assume k: "k < length ms"
        and r: "FindPreferredMode_loop ms (Suc i) area mode = Returns (Some (Suc i + k))"
        and gt: "area < mode_area (ms ! k)"
        and mx: "\<forall>j<length ms. mode_area (ms ! j) \<le> mode_area (ms ! k)"
        and first: "\<forall>j<k. mode_area (ms ! j) < mode_area (ms ! k)"
      from False gt have mgt: "mode_area m < mode_area (ms ! k)" by simp
      have mx': "\<forall>j<length (m # ms). mode_area ((m # ms) ! j) \<le> mode_area ((m # ms) ! Suc k)"
      proof (intro allI impI)
        fix j assume "j < length (m # ms)"
        then show "mode_area ((m # ms) ! j) \<le> mode_area ((m # ms) ! Suc k)"
          using mx mgt by (cases j) simp_all
      qed
      have first': "\<forall>j<Suc k. mode_area ((m # ms) ! j) < mode_area ((m # ms) ! Suc k)"
      proof (intro allI impI)
        fix j assume "j < Suc k"
        then show "mode_area ((m # ms) ! j) < mode_area ((m # ms) ! Suc k)"
          using first mgt by (cases j) simp_all
      qed
      from k r step gt mx' first' have "Suc k < length (m # ms) \<and>
          FindPreferredMode_loop (m # ms) i area mode = Returns (Some (i + Suc k)) \<and>
          area < mode_area ((m # ms) ! Suc k) \<and>
          (\<forall>j<length (m # ms). mode_area ((m # ms) ! j) \<le> mode_area ((m # ms) ! Suc k)) \<and>
          (\<forall>j<Suc k. mode_area ((m # ms) ! j) < mode_area ((m # ms) ! Suc k))"
        by simp
      then show ?thesis by blast
    qed
  qed
qed


lemma mode_area_nonneg: "0 \<le> mode_area m"
  by (simp add: mode_area_def)

lemma find_if_takeWhile_Some:
  "find_if P xs = Some k \<Longrightarrow> takeWhile (\<lambda>x. \<not> P x) xs = take k xs"
  by (induction xs arbitrary: k) (auto split: if_splits)

lemma find_if_takeWhile_None:
  "find_if P xs = None \<Longrightarrow> takeWhile (\<lambda>x. \<not> P x) xs = xs"
  by (induction xs) (auto split: if_splits)

lemmas mode_defs = raw_mode_def with_modes_def four_modes_def empty_mode_def session_def
  preferred_def mode_area_def INT_MAX_def DRM_MODE_TYPE_PREFERRED_def


text \<open>
  C7, as amended. Let a connector be selected, no mode be selected yet, and the area of every
  mode scanned (every mode up to the first preferred one) fit \<^verbatim>\<open>int\<close>. Then
  \<^verbatim>\<open>FindPreferredMode\<close> returns. If some mode carries the preferred flag, the first such mode
  is selected, whatever follows it. Otherwise the selected mode has the largest area, a
  positive one, and is the earliest of that area. The function returns false exactly when no
  mode is preferred and every mode has area zero, as for an empty list.
\<close>

theorem FindPreferredMode_selects:
  assumes "m_connector s = Some c" and "m_mode s = None"
    and "\<forall>m\<in>set (takeWhile (\<lambda>m. \<not> preferred m) (modes c)). mode_area m \<le> INT_MAX"
  shows "\<exists>r. FindPreferredMode s = Returns (r \<noteq> None, s\<lparr>m_mode := r\<rparr>) \<and>
     (r = None) = (find_if preferred (modes c) = None \<and> (\<forall>m\<in>set (modes c). mode_area m = 0)) \<and>
     (case find_if preferred (modes c) of
        Some k \<Rightarrow> r = Some k
      | None \<Rightarrow>
          (case r of
             None \<Rightarrow> True
           | Some k \<Rightarrow>
               k < length (modes c) \<and> 0 < mode_area (modes c ! k) \<and>
               (\<forall>j<length (modes c). mode_area (modes c ! j) \<le> mode_area (modes c ! k)) \<and>
               (\<forall>j<k. mode_area (modes c ! j) < mode_area (modes c ! k))))"
proof (cases "find_if preferred (modes c)")
  case (Some k)
  from find_if_Some [OF Some] have k: "k < length (modes c)" by simp
  have "\<forall>j<k. mode_area (modes c ! j) \<le> INT_MAX"
  proof (intro allI impI)
    fix j assume j: "j < k"
    with k have "take k (modes c) ! j = modes c ! j" "j < length (take k (modes c))"
      by simp_all
    then have "modes c ! j \<in> set (take k (modes c))"
      using nth_mem [of j "take k (modes c)"] by simp
    with assms(3) find_if_takeWhile_Some [OF Some] show "mode_area (modes c ! j) \<le> INT_MAX"
      by simp
  qed
  from FindPreferredMode_loop_preferred [OF Some this, of 0 0 "m_mode s"]
  have "FindPreferredMode s = Returns (Some k \<noteq> None, s\<lparr>m_mode := Some k\<rparr>)"
    using assms(1) by (simp add: FindPreferredMode_def)
  then have "FindPreferredMode s = Returns (Some k \<noteq> None, s\<lparr>m_mode := Some k\<rparr>) \<and>
     (Some k = None) = (find_if preferred (modes c) = None \<and> (\<forall>m\<in>set (modes c). mode_area m = 0)) \<and>
     (case find_if preferred (modes c) of
        Some k' \<Rightarrow> Some k = Some k'
      | None \<Rightarrow> True)"
    using Some by simp
  then show ?thesis using Some by (intro exI [of _ "Some k"]) simp
next
  case None
  let ?ms = "modes c"
  from None have np: "\<forall>m\<in>set ?ms. \<not> preferred m" by (simp add: find_if_None)
  with assms(3) find_if_takeWhile_None [OF None]
  have pre: "\<forall>m\<in>set ?ms. \<not> preferred m \<and> mode_area m \<le> INT_MAX" by simp
  from FindPreferredMode_loop_largest [OF pre, of 0 0 None]
  show ?thesis
  proof (elim disjE conjE exE)
    assume r: "FindPreferredMode_loop ?ms 0 0 None = Returns None"
      and le: "\<forall>m\<in>set ?ms. mode_area m \<le> 0"
    have z: "\<forall>m\<in>set ?ms. mode_area m = 0"
    proof
      fix m assume "m \<in> set ?ms"
      with le have "mode_area m \<le> 0" by simp
      with mode_area_nonneg [of m] show "mode_area m = 0" by simp
    qed
    from r assms(1,2) have "FindPreferredMode s = Returns (None \<noteq> None, s\<lparr>m_mode := None\<rparr>)"
      by (simp add: FindPreferredMode_def)
    with None z show ?thesis by (intro exI [of _ None]) simp
  next
    fix k
    assume k: "k < length ?ms"
      and r: "FindPreferredMode_loop ?ms 0 0 None = Returns (Some (0 + k))"
      and gt: "0 < mode_area (?ms ! k)"
      and mx: "\<forall>j<length ?ms. mode_area (?ms ! j) \<le> mode_area (?ms ! k)"
      and first: "\<forall>j<k. mode_area (?ms ! j) < mode_area (?ms ! k)"
    from r assms(1,2) have run: "FindPreferredMode s = Returns (Some k \<noteq> None, s\<lparr>m_mode := Some k\<rparr>)"
      by (simp add: FindPreferredMode_def)
    have "\<not> (\<forall>m\<in>set ?ms. mode_area m = 0)"
    proof
      assume "\<forall>m\<in>set ?ms. mode_area m = 0"
      with nth_mem [OF k] have "mode_area (?ms ! k) = 0" by simp
      with gt show False by simp
    qed
    with run None k gt mx first show ?thesis by (intro exI [of _ "Some k"]) simp
  qed
qed


theorem FindPreferredMode_selects_witness:
  "m_connector (with_modes four_modes) =
     Some \<lparr>connector_id = 7, connector_encoder_id = 1, connected = True, modes = four_modes\<rparr> \<and>
   m_mode (with_modes four_modes) = None \<and>
   find_if preferred four_modes = None \<and>
   FindPreferredMode (with_modes four_modes) =
     Returns (True, (with_modes four_modes)\<lparr>m_mode := Some 1\<rparr>) \<and>
   mode_area (four_modes ! 0) < mode_area (four_modes ! 1) \<and>
   mode_area (four_modes ! 2) = mode_area (four_modes ! 1)"
proof -
  let ?c = "\<lparr>connector_id = 7, connector_encoder_id = 1, connected = True, modes = four_modes\<rparr>"
  have h1: "m_connector (with_modes four_modes) = Some ?c"
    by (simp add: with_modes_def)
  have h2: "m_mode (with_modes four_modes) = None"
    by (simp add: with_modes_def session_def)
  have h3: "\<forall>m\<in>set (takeWhile (\<lambda>m. \<not> preferred m) (modes ?c)). mode_area m \<le> INT_MAX"
    by (simp add: mode_defs)
  have np: "find_if preferred four_modes = None"
    by (simp add: mode_defs)
  from FindPreferredMode_selects [OF h1 h2 h3] obtain r where
    run: "FindPreferredMode (with_modes four_modes) =
            Returns (r \<noteq> None, (with_modes four_modes)\<lparr>m_mode := r\<rparr>)"
    and sel: "(case find_if preferred (modes ?c) of
        Some k \<Rightarrow> r = Some k
      | None \<Rightarrow>
          (case r of
             None \<Rightarrow> True
           | Some k \<Rightarrow>
               k < length (modes ?c) \<and> 0 < mode_area (modes ?c ! k) \<and>
               (\<forall>j<length (modes ?c). mode_area (modes ?c ! j) \<le> mode_area (modes ?c ! k)) \<and>
               (\<forall>j<k. mode_area (modes ?c ! j) < mode_area (modes ?c ! k))))"
    by blast
  have ev: "FindPreferredMode (with_modes four_modes) =
     Returns (True, (with_modes four_modes)\<lparr>m_mode := Some 1\<rparr>)"
    by (simp add: mode_defs FindPreferredMode_def)
  have "mode_area (four_modes ! 0) < mode_area (four_modes ! 1) \<and>
        mode_area (four_modes ! 2) = mode_area (four_modes ! 1)"
    by (simp add: mode_defs)
  with h1 h2 np run ev show ?thesis by simp
qed

text \<open>
  The claim as stated fails: a connector whose only mode has width zero has a non-empty mode list,
  and \<^verbatim>\<open>FindPreferredMode\<close> returns false for it.
\<close>

theorem FindPreferredMode_empty_counterexample:
  "modes \<lparr>connector_id = 7, connector_encoder_id = 1, connected = True, modes = empty_mode\<rparr> \<noteq> [] \<and>
   m_connector (with_modes empty_mode) =
     Some \<lparr>connector_id = 7, connector_encoder_id = 1, connected = True, modes = empty_mode\<rparr> \<and>
   m_mode (with_modes empty_mode) = None \<and>
   FindPreferredMode (with_modes empty_mode) = Returns (False, with_modes empty_mode)"
  by (simp add: mode_defs FindPreferredMode_def)

subsection \<open>GetResolutionInfo\<close>

lemmas res_defs = GetResolutionInfo_def limit_gui_size_def present_flags_def Let_def

text \<open>
  C6. The GUI size differs from the screen size only when the limit is positive and the mode is
  wider than 1920 and higher than 1080; the screen size is the mode's. With limit 3 a mode of
  3840x2160 gets the GUI size 1920x1080 whatever its refresh rate, clock and flags; with
  limit 0 it keeps 3840x2160.
\<close>

theorem GetResolutionInfo_gui_size_limit:
  "(iWidth (GetResolutionInfo D res limit mode) \<noteq> uint (hdisplay mode) \<or>
    iHeight (GetResolutionInfo D res limit mode) \<noteq> uint (vdisplay mode)
      \<longrightarrow> 0 < limit \<and> 1920 < uint (hdisplay mode) \<and> 1080 < uint (vdisplay mode)) \<and>
   iScreenWidth (GetResolutionInfo D res limit mode) = uint (hdisplay mode) \<and>
   iScreenHeight (GetResolutionInfo D res limit mode) = uint (vdisplay mode) \<and>
   iWidth (GetResolutionInfo D res 3 (mode\<lparr>hdisplay := 3840, vdisplay := 2160\<rparr>)) = 1920 \<and>
   iHeight (GetResolutionInfo D res 3 (mode\<lparr>hdisplay := 3840, vdisplay := 2160\<rparr>)) = 1080 \<and>
   iWidth (GetResolutionInfo D res 0 (mode\<lparr>hdisplay := 3840, vdisplay := 2160\<rparr>)) = 3840 \<and>
   iHeight (GetResolutionInfo D res 0 (mode\<lparr>hdisplay := 3840, vdisplay := 2160\<rparr>)) = 2160"
proof -
  have only: "iWidth (GetResolutionInfo D res limit mode) \<noteq> uint (hdisplay mode) \<or>
    iHeight (GetResolutionInfo D res limit mode) \<noteq> uint (vdisplay mode)
      \<longrightarrow> 0 < limit \<and> 1920 < uint (hdisplay mode) \<and> 1080 < uint (vdisplay mode)"
    by (simp add: res_defs)
  have screen: "iScreenWidth (GetResolutionInfo D res limit mode) = uint (hdisplay mode) \<and>
    iScreenHeight (GetResolutionInfo D res limit mode) = uint (vdisplay mode)"
    by (simp add: res_defs)
  have t3: "iWidth (GetResolutionInfo D res 3 (mode\<lparr>hdisplay := 3840, vdisplay := 2160\<rparr>)) = 1920 \<and>
    iHeight (GetResolutionInfo D res 3 (mode\<lparr>hdisplay := 3840, vdisplay := 2160\<rparr>)) = 1080"
    by (simp add: res_defs)
  have t0: "iWidth (GetResolutionInfo D res 0 (mode\<lparr>hdisplay := 3840, vdisplay := 2160\<rparr>)) = 3840 \<and>
    iHeight (GetResolutionInfo D res 0 (mode\<lparr>hdisplay := 3840, vdisplay := 2160\<rparr>)) = 2160"
    by (simp add: res_defs)
  from only screen t3 t0 show ?thesis by blast
qed

theorem GetResolutionInfo_gui_size_limit_witness:
  "iWidth (GetResolutionInfo flag_bits blank_res 1 (raw_mode 3840 2160 60 0)) = 1280 \<and>
   iWidth (GetResolutionInfo flag_bits blank_res 1 (raw_mode 3840 2160 60 0))
     \<noteq> uint (hdisplay (raw_mode 3840 2160 60 0)) \<and>
   (0::int) < 1 \<and> 1920 < uint (hdisplay (raw_mode 3840 2160 60 0)) \<and>
   1080 < uint (vdisplay (raw_mode 3840 2160 60 0)) \<and>
   iWidth (GetResolutionInfo flag_bits blank_res 3 (raw_mode 3840 2160 24 0)) = 1920 \<and>
   iHeight (GetResolutionInfo flag_bits blank_res 3 (raw_mode 3840 2160 24 0)) = 1080"
proof -
  have w: "iWidth (GetResolutionInfo flag_bits blank_res 1 (raw_mode 3840 2160 60 0)) = 1280"
    by (simp add: res_defs raw_mode_def blank_res_def)
  then have ne: "iWidth (GetResolutionInfo flag_bits blank_res 1 (raw_mode 3840 2160 60 0))
     \<noteq> uint (hdisplay (raw_mode 3840 2160 60 0))"
    by (simp add: raw_mode_def)
  have same: "(raw_mode 3840 2160 24 0)\<lparr>hdisplay := 3840, vdisplay := 2160\<rparr> = raw_mode 3840 2160 24 0"
    by (simp add: raw_mode_def)
  from GetResolutionInfo_gui_size_limit [of flag_bits blank_res 1 "raw_mode 3840 2160 60 0"] ne
  have "(0::int) < 1 \<and> 1920 < uint (hdisplay (raw_mode 3840 2160 60 0)) \<and>
        1080 < uint (vdisplay (raw_mode 3840 2160 60 0))"
    by blast
  moreover from GetResolutionInfo_gui_size_limit [of flag_bits blank_res 1 "raw_mode 3840 2160 24 0"] same
  have "iWidth (GetResolutionInfo flag_bits blank_res 3 (raw_mode 3840 2160 24 0)) = 1920 \<and>
        iHeight (GetResolutionInfo flag_bits blank_res 3 (raw_mode 3840 2160 24 0)) = 1080"
    by simp
  ultimately show ?thesis using w ne by simp
qed

lemma GetResolutionInfo_dwFlags:
  "dwFlags (GetResolutionInfo D res limit mode) =
     (if flags mode AND DRM_MODE_FLAG_3D_MASK \<noteq> 0 then
        (if flags mode AND DRM_MODE_FLAG_3D_TOP_AND_BOTTOM \<noteq> 0 then D3DPRESENTFLAG_MODE3DTB D
         else if flags mode AND DRM_MODE_FLAG_3D_SIDE_BY_SIDE_HALF \<noteq> 0 then D3DPRESENTFLAG_MODE3DSBS D
         else dwFlags res)
      else if flags mode AND DRM_MODE_FLAG_INTERLACE \<noteq> 0 then D3DPRESENTFLAG_INTERLACED D
      else D3DPRESENTFLAG_PROGRESSIVE D)"
  by (simp add: res_defs)


text \<open>
  C9. The claim: every raw mode gets one of the four flags, a 3D flag whenever a bit of the 3D
  mask is set. The code does not assign \<^verbatim>\<open>dwFlags\<close> when the only bit of the 3D mask that
  is set is bit 18: the descriptor keeps the value its constructor gave it, here none of the
  four flags.
\<close>

theorem GetResolutionInfo_3d_flag_unassigned:
  "(0x40000 :: u32) AND DRM_MODE_FLAG_3D_MASK \<noteq> 0 \<and>
   dwFlags (GetResolutionInfo D res limit (mode\<lparr>flags := 0x40000\<rparr>)) = dwFlags res \<and>
   dwFlags (GetResolutionInfo flag_bits blank_res limit (mode\<lparr>flags := 0x40000\<rparr>)) = 0 \<and>
   0 \<notin> {D3DPRESENTFLAG_MODE3DTB flag_bits, D3DPRESENTFLAG_MODE3DSBS flag_bits,
          D3DPRESENTFLAG_INTERLACED flag_bits, D3DPRESENTFLAG_PROGRESSIVE flag_bits}"
proof -
  have m: "(0x40000 :: u32) AND DRM_MODE_FLAG_3D_MASK \<noteq> 0"
    by (simp add: DRM_MODE_FLAG_3D_MASK_def)
  have tb: "(0x40000 :: u32) AND DRM_MODE_FLAG_3D_TOP_AND_BOTTOM = 0"
    by (simp add: DRM_MODE_FLAG_3D_TOP_AND_BOTTOM_def)
  have sbs: "(0x40000 :: u32) AND DRM_MODE_FLAG_3D_SIDE_BY_SIDE_HALF = 0"
    by (simp add: DRM_MODE_FLAG_3D_SIDE_BY_SIDE_HALF_def)
  have g: "\<And>D res. dwFlags (GetResolutionInfo D res limit (mode\<lparr>flags := 0x40000\<rparr>)) = dwFlags res"
    using m tb sbs by (simp add: GetResolutionInfo_dwFlags)
  have "0 \<notin> {D3DPRESENTFLAG_MODE3DTB flag_bits, D3DPRESENTFLAG_MODE3DSBS flag_bits,
          D3DPRESENTFLAG_INTERLACED flag_bits, D3DPRESENTFLAG_PROGRESSIVE flag_bits}"
    by (simp add: flag_bits_def)
  with m g show ?thesis by (simp add: blank_res_def)
qed

subsection \<open>DrmFbGetFromBo\<close>

lemmas fb_cfg_defs = gui_selected_def fresh_bo_def empty_world_def rejecting_def legacy_only_def
  accepting_def bound_bo_def bound_world_def session_def plane_def

text \<open>The registration, with its three ways of returning spelt out.\<close>

lemma register_fb_Returns:
  assumes "\<not> (has_gbm_modifiers P \<and> 4 < length (bo_planes bo))"
  shows "register_fb P fmt bo w =
     (let a = new_drm_fb P;
          fb = \<lparr>fb_bo = bo_addr bo, fb_id = new_fb_id P, fb_format = fmt\<rparr>;
          r1 = ioctl P (modifier_request P fmt bo);
          r2 = ioctl P (legacy_request P fmt bo)
      in if fst r1 < 0 then
           if fst r2 < 0
           then Returns (None, bo,
                  w\<lparr>heap := (heap w)(a := None),
                    calls := calls w @ [modifier_request P fmt bo, legacy_request P fmt bo]\<rparr>)
           else Returns (Some a, bo\<lparr>bo_user_data := Some a, bo_destroy_user_data := True\<rparr>,
                  w\<lparr>heap := (heap w)(a \<mapsto> fb\<lparr>fb_id := snd r2\<rparr>),
                    calls := calls w @ [modifier_request P fmt bo, legacy_request P fmt bo]\<rparr>)
         else Returns (Some a, bo\<lparr>bo_user_data := Some a, bo_destroy_user_data := True\<rparr>,
                w\<lparr>heap := (heap w)(a \<mapsto> fb\<lparr>fb_id := snd r1\<rparr>),
                  calls := calls w @ [modifier_request P fmt bo]\<rparr>))"
  using assms
  by (simp add: register_fb_def store_fb_id_def set_user_data_def Let_def)


lemma DrmFbGetFromBo_hit:
  assumes "gui_plane_format this = Returns fmt"
    and "bo_user_data bo = Some a" and "heap w a = Some fb" and "fb_format fb = fmt"
  shows "DrmFbGetFromBo this P bo w = Returns (Some a, bo, w)"
  using assms by (simp add: DrmFbGetFromBo_def cached_fb_def)

lemma DrmFbGetFromBo_miss:
  assumes "gui_plane_format this = Returns fmt" and "cached_fb fmt bo w = Returns (Miss w0)"
  shows "DrmFbGetFromBo this P bo w = register_fb P fmt bo w0"
  using assms by (simp add: DrmFbGetFromBo_def)

lemma DrmFbGetFromBo_Returns:
  assumes "DrmFbGetFromBo this P bo w = Returns res"
  shows "\<exists>fmt c. gui_plane_format this = Returns fmt \<and> cached_fb fmt bo w = Returns c \<and>
           (case c of Hit a \<Rightarrow> res = (Some a, bo, w)
                    | Miss w0 \<Rightarrow> register_fb P fmt bo w0 = Returns res)"
proof -
  from assms obtain fmt where f: "gui_plane_format this = Returns fmt"
    by (cases "gui_plane_format this") (simp_all add: DrmFbGetFromBo_def)
  with assms obtain c where c: "cached_fb fmt bo w = Returns c"
    by (cases "cached_fb fmt bo w") (simp_all add: DrmFbGetFromBo_def)
  from assms f c show ?thesis
    by (cases c) (simp_all add: DrmFbGetFromBo_def)
qed

text \<open>A successful registration leaves a descriptor of the GUI format cached on the buffer.\<close>

lemma register_fb_Some:
  assumes "register_fb P fmt bo w0 = Returns (Some a, bo', w')"
  shows "bo_user_data bo' = Some a \<and> bo_destroy_user_data bo' \<and>
         (\<exists>fb. heap w' a = Some fb \<and> fb_format fb = fmt) \<and>
         a = new_drm_fb P \<and>
         \<not> (fst (ioctl P (modifier_request P fmt bo)) < 0 \<and>
            fst (ioctl P (legacy_request P fmt bo)) < 0)"
proof -
  from assms have ok: "\<not> (has_gbm_modifiers P \<and> 4 < length (bo_planes bo))"
    by (auto simp: register_fb_def)
  from assms show ?thesis
    unfolding register_fb_Returns [OF ok] Let_def
    by (auto split: if_splits)
qed

lemma register_fb_None:
  assumes "register_fb P fmt bo w0 = Returns (None, bo', w')"
  shows "bo' = bo \<and> fst (ioctl P (modifier_request P fmt bo)) < 0 \<and>
         fst (ioctl P (legacy_request P fmt bo)) < 0"
proof -
  from assms have ok: "\<not> (has_gbm_modifiers P \<and> 4 < length (bo_planes bo))"
    by (auto simp: register_fb_def)
  from assms show ?thesis
    unfolding register_fb_Returns [OF ok] Let_def
    by (auto split: if_splits)
qed

lemma gui_selected_format: "gui_plane_format gui_selected = Returns DRM_FORMAT_XRGB8888"
  by (simp add: gui_plane_format_def fb_cfg_defs)

lemma legacy_only_answers:
  "fst (ioctl legacy_only (modifier_request legacy_only DRM_FORMAT_XRGB8888 fresh_bo)) < 0 \<and>
   \<not> fst (ioctl legacy_only (legacy_request legacy_only DRM_FORMAT_XRGB8888 fresh_bo)) < 0 \<and>
   snd (ioctl legacy_only (legacy_request legacy_only DRM_FORMAT_XRGB8888 fresh_bo)) = 42"
  by (simp add: legacy_only_def modifier_request_def legacy_request_def)

lemma fresh_bo_planes: "\<not> (has_gbm_modifiers P \<and> 4 < length (bo_planes fresh_bo))"
  by (simp add: fresh_bo_def)

lemma legacy_only_run:
  "DrmFbGetFromBo gui_selected legacy_only fresh_bo empty_world =
     Returns (Some 1, bound_bo,
       bound_world\<lparr>calls := [modifier_request legacy_only DRM_FORMAT_XRGB8888 fresh_bo,
                              legacy_request legacy_only DRM_FORMAT_XRGB8888 fresh_bo]\<rparr>)"
proof -
  have miss: "cached_fb DRM_FORMAT_XRGB8888 fresh_bo empty_world = Returns (Miss empty_world)"
    by (simp add: cached_fb_def fresh_bo_def)
  have new: "new_drm_fb legacy_only = 1" "new_fb_id legacy_only = 0"
    by (simp_all add: legacy_only_def)
  show ?thesis
    unfolding DrmFbGetFromBo_miss [OF gui_selected_format miss]
      register_fb_Returns [OF fresh_bo_planes] Let_def
    using legacy_only_answers new
    by (simp add: bound_bo_def bound_world_def empty_world_def fresh_bo_def)
qed

text \<open>
  C4. If the buffer's user data points to a descriptor whose format is the GUI plane's format,
  \<^verbatim>\<open>DrmFbGetFromBo\<close> returns that pointer and changes neither the buffer nor the world: no
  request reaches the driver. Whenever a call returns a framebuffer, the next call on the
  resulting buffer and world returns the same pointer and changes nothing, whatever the
  driver would answer.
\<close>

theorem DrmFbGetFromBo_idempotent:
  "(gui_plane_format this = Returns fmt \<and> bo_user_data bo = Some a \<and>
    heap w a = Some fb \<and> fb_format fb = fmt
      \<longrightarrow> DrmFbGetFromBo this P bo w = Returns (Some a, bo, w)) \<and>
   (DrmFbGetFromBo this P bo w = Returns (Some a', bo', w')
      \<longrightarrow> DrmFbGetFromBo this P' bo' w' = Returns (Some a', bo', w'))"
proof (intro conjI impI)
  assume "gui_plane_format this = Returns fmt \<and> bo_user_data bo = Some a \<and>
    heap w a = Some fb \<and> fb_format fb = fmt"
  then show "DrmFbGetFromBo this P bo w = Returns (Some a, bo, w)"
    by (simp add: DrmFbGetFromBo_hit)
next
  assume run: "DrmFbGetFromBo this P bo w = Returns (Some a', bo', w')"
  from DrmFbGetFromBo_Returns [OF run] obtain f c
    where f: "gui_plane_format this = Returns f" and c: "cached_fb f bo w = Returns c"
      and res: "(case c of Hit b \<Rightarrow> (Some a', bo', w') = (Some b, bo, w)
                      | Miss w0 \<Rightarrow> register_fb P f bo w0 = Returns (Some a', bo', w'))"
    by blast
  show "DrmFbGetFromBo this P' bo' w' = Returns (Some a', bo', w')"
  proof (cases c)
    case (Hit b)
    with res have eq: "a' = b" "bo' = bo" "w' = w" by simp_all
    from f c Hit eq show ?thesis by (simp add: DrmFbGetFromBo_def)
  next
    case (Miss w0)
    with res have "register_fb P f bo w0 = Returns (Some a', bo', w')" by simp
    from register_fb_Some [OF this] obtain fb'
      where "bo_user_data bo' = Some a'" "heap w' a' = Some fb'" "fb_format fb' = f"
      by blast
    with f show ?thesis by (rule DrmFbGetFromBo_hit)
  qed
qed

theorem DrmFbGetFromBo_idempotent_witness:
  "gui_plane_format gui_selected = Returns DRM_FORMAT_XRGB8888 \<and>
   bo_user_data bound_bo = Some 1 \<and>
   heap bound_world 1 = Some \<lparr>fb_bo = 100, fb_id = 42, fb_format = DRM_FORMAT_XRGB8888\<rparr> \<and>
   DrmFbGetFromBo gui_selected rejecting bound_bo bound_world =
     Returns (Some 1, bound_bo, bound_world) \<and>
   DrmFbGetFromBo gui_selected accepting bound_bo bound_world =
     Returns (Some 1, bound_bo, bound_world)"
proof -
  let ?fb = "\<lparr>fb_bo = 100, fb_id = 42, fb_format = DRM_FORMAT_XRGB8888\<rparr>"
  have h2: "bo_user_data bound_bo = Some 1"
    by (simp add: bound_bo_def)
  have h3: "heap bound_world 1 = Some ?fb"
    by (simp add: bound_world_def)
  have h4: "fb_format ?fb = DRM_FORMAT_XRGB8888" by simp
  note inst = DrmFbGetFromBo_idempotent [where this = gui_selected and fmt = DRM_FORMAT_XRGB8888
      and bo = bound_bo and a = 1 and w = bound_world and fb = ?fb and P = rejecting
      and a' = 1 and bo' = bound_bo and w' = bound_world and P' = accepting]
  from inst gui_selected_format h2 h3 h4
  have first: "DrmFbGetFromBo gui_selected rejecting bound_bo bound_world =
     Returns (Some 1, bound_bo, bound_world)"
    by blast
  with inst have "DrmFbGetFromBo gui_selected accepting bound_bo bound_world =
     Returns (Some 1, bound_bo, bound_world)"
    by blast
  with gui_selected_format h2 h3 first show ?thesis by simp
qed

text \<open>
  C5. When no descriptor of the GUI plane's format is cached on the buffer, the call sends the
  modifier-aware request first and the legacy request (which carries no modifiers) only if the
  first one is answered with a negative value. If both are, the call returns a null pointer,
  leaves the buffer as it was and the new descriptor is deleted; otherwise it returns the new
  descriptor.
\<close>

theorem DrmFbGetFromBo_registration_order:
  assumes "gui_plane_format this = Returns fmt"
    and "cached_fb fmt bo w = Returns (Miss w0)"
    and "\<not> (has_gbm_modifiers P \<and> 4 < length (bo_planes bo))"
  shows "\<exists>r bo' w'. DrmFbGetFromBo this P bo w = Returns (r, bo', w') \<and>
      calls w' = calls w0 @
        (if fst (ioctl P (modifier_request P fmt bo)) < 0
         then [modifier_request P fmt bo, legacy_request P fmt bo]
         else [modifier_request P fmt bo]) \<and>
      (if fst (ioctl P (modifier_request P fmt bo)) < 0 \<and>
          fst (ioctl P (legacy_request P fmt bo)) < 0
       then r = None \<and> bo' = bo \<and> heap w' = (heap w0)(new_drm_fb P := None)
       else r = Some (new_drm_fb P) \<and> bo_user_data bo' = Some (new_drm_fb P))"
proof -
  have run: "DrmFbGetFromBo this P bo w = register_fb P fmt bo w0"
    using assms(1,2) by (rule DrmFbGetFromBo_miss)
  show ?thesis
    unfolding run register_fb_Returns [OF assms(3)] Let_def
    by simp
qed

theorem DrmFbGetFromBo_registration_order_witness:
  "gui_plane_format gui_selected = Returns DRM_FORMAT_XRGB8888 \<and>
   cached_fb DRM_FORMAT_XRGB8888 fresh_bo empty_world = Returns (Miss empty_world) \<and>
   \<not> (has_gbm_modifiers legacy_only \<and> 4 < length (bo_planes fresh_bo)) \<and>
   fst (ioctl legacy_only (modifier_request legacy_only DRM_FORMAT_XRGB8888 fresh_bo)) < 0 \<and>
   (\<exists>r bo' w'. DrmFbGetFromBo gui_selected legacy_only fresh_bo empty_world = Returns (r, bo', w') \<and>
      calls w' = [modifier_request legacy_only DRM_FORMAT_XRGB8888 fresh_bo,
                  legacy_request legacy_only DRM_FORMAT_XRGB8888 fresh_bo] \<and>
      r = Some 1 \<and> bo_user_data bo' = Some 1)"
proof -
  have miss: "cached_fb DRM_FORMAT_XRGB8888 fresh_bo empty_world = Returns (Miss empty_world)"
    by (simp add: cached_fb_def fresh_bo_def)
  have new: "new_drm_fb legacy_only = 1"
    by (simp add: legacy_only_def)
  have nocalls: "calls empty_world = []"
    by (simp add: empty_world_def)
  from DrmFbGetFromBo_registration_order [OF gui_selected_format miss fresh_bo_planes,
      of legacy_only] legacy_only_answers new nocalls
  have "\<exists>r bo' w'. DrmFbGetFromBo gui_selected legacy_only fresh_bo empty_world = Returns (r, bo', w') \<and>
      calls w' = [modifier_request legacy_only DRM_FORMAT_XRGB8888 fresh_bo,
                  legacy_request legacy_only DRM_FORMAT_XRGB8888 fresh_bo] \<and>
      r = Some 1 \<and> bo_user_data bo' = Some 1"
    by simp
  with gui_selected_format miss fresh_bo_planes legacy_only_answers show ?thesis by simp
qed

text \<open>
  C10. For a buffer without user data, when the driver rejects both requests the call returns a
  null pointer and the buffer unchanged (no user data, no destroy callback), with the new
  descriptor deleted; a later call on that buffer runs the registration again. A call attaches
  the destroy callback only when it returns the newly registered descriptor, that is only
  when one of the two requests succeeded.
\<close>

theorem DrmFbGetFromBo_failure_leaves_buffer:
  assumes "gui_plane_format this = Returns fmt"
    and "bo_user_data bo = None"
    and "\<not> (has_gbm_modifiers P \<and> 4 < length (bo_planes bo))"
    and "fst (ioctl P (modifier_request P fmt bo)) < 0"
    and "fst (ioctl P (legacy_request P fmt bo)) < 0"
  shows "DrmFbGetFromBo this P bo w =
           Returns (None, bo,
             w\<lparr>heap := (heap w)(new_drm_fb P := None),
               calls := calls w @ [modifier_request P fmt bo, legacy_request P fmt bo]\<rparr>) \<and>
         DrmFbGetFromBo this P' bo w1 = register_fb P' fmt bo w1 \<and>
         (DrmFbGetFromBo this Q b v = Returns (r, b', v') \<and>
          bo_destroy_user_data b' \<and> \<not> bo_destroy_user_data b
            \<longrightarrow> r = Some (new_drm_fb Q) \<and> bo_user_data b' = r \<and>
                \<not> (fst (ioctl Q (modifier_request Q fmt b)) < 0 \<and>
                   fst (ioctl Q (legacy_request Q fmt b)) < 0))"
proof (intro conjI impI)
  have miss: "\<And>v. cached_fb fmt bo v = Returns (Miss v)"
    using assms(2) by (simp add: cached_fb_def)
  show "DrmFbGetFromBo this P bo w =
           Returns (None, bo,
             w\<lparr>heap := (heap w)(new_drm_fb P := None),
               calls := calls w @ [modifier_request P fmt bo, legacy_request P fmt bo]\<rparr>)"
    unfolding DrmFbGetFromBo_miss [OF assms(1) miss] register_fb_Returns [OF assms(3)] Let_def
    using assms(4,5) by simp
  show "DrmFbGetFromBo this P' bo w1 = register_fb P' fmt bo w1"
    using assms(1) miss by (rule DrmFbGetFromBo_miss)
next
  assume a: "DrmFbGetFromBo this Q b v = Returns (r, b', v') \<and>
          bo_destroy_user_data b' \<and> \<not> bo_destroy_user_data b"
  then have run: "DrmFbGetFromBo this Q b v = Returns (r, b', v')"
    and d': "bo_destroy_user_data b'" and d: "\<not> bo_destroy_user_data b"
    by simp_all
  from DrmFbGetFromBo_Returns [OF run] assms(1) obtain c
    where c: "cached_fb fmt b v = Returns c"
      and res: "(case c of Hit a \<Rightarrow> (r, b', v') = (Some a, b, v)
                      | Miss w0 \<Rightarrow> register_fb Q fmt b w0 = Returns (r, b', v'))"
    by auto
  have reg: "\<exists>w0. register_fb Q fmt b w0 = Returns (r, b', v')"
  proof (cases c)
    case (Hit a)
    with res d d' show ?thesis by simp
  next
    case (Miss w0)
    with res show ?thesis by auto
  qed
  then obtain w0 where w0: "register_fb Q fmt b w0 = Returns (r, b', v')" by blast
  have "r \<noteq> None"
  proof
    assume "r = None"
    with w0 register_fb_None [of Q fmt b w0 b' v'] have "b' = b" by simp
    with d d' show False by simp
  qed
  then obtain a where r: "r = Some a" by auto
  with w0 register_fb_Some [of Q fmt b w0 a b' v']
  show "r = Some (new_drm_fb Q)" "bo_user_data b' = r"
    "\<not> (fst (ioctl Q (modifier_request Q fmt b)) < 0 \<and>
        fst (ioctl Q (legacy_request Q fmt b)) < 0)"
    by simp_all
qed


theorem DrmFbGetFromBo_failure_leaves_buffer_witness:
  "gui_plane_format gui_selected = Returns DRM_FORMAT_XRGB8888 \<and>
   bo_user_data fresh_bo = None \<and>
   fst (ioctl rejecting (modifier_request rejecting DRM_FORMAT_XRGB8888 fresh_bo)) < 0 \<and>
   fst (ioctl rejecting (legacy_request rejecting DRM_FORMAT_XRGB8888 fresh_bo)) < 0 \<and>
   DrmFbGetFromBo gui_selected rejecting fresh_bo empty_world =
     Returns (None, fresh_bo,
       empty_world\<lparr>calls := [modifier_request rejecting DRM_FORMAT_XRGB8888 fresh_bo,
                              legacy_request rejecting DRM_FORMAT_XRGB8888 fresh_bo]\<rparr>) \<and>
   DrmFbGetFromBo gui_selected legacy_only fresh_bo empty_world =
     Returns (Some 1, bound_bo,
       bound_world\<lparr>calls := [modifier_request legacy_only DRM_FORMAT_XRGB8888 fresh_bo,
                              legacy_request legacy_only DRM_FORMAT_XRGB8888 fresh_bo]\<rparr>) \<and>
   bo_destroy_user_data bound_bo \<and> \<not> bo_destroy_user_data fresh_bo \<and>
   \<not> fst (ioctl legacy_only (legacy_request legacy_only DRM_FORMAT_XRGB8888 fresh_bo)) < 0"
proof -
  have h2: "bo_user_data fresh_bo = None"
    by (simp add: fresh_bo_def)
  have h4: "fst (ioctl rejecting (modifier_request rejecting DRM_FORMAT_XRGB8888 fresh_bo)) < 0"
    by (simp add: rejecting_def)
  have h5: "fst (ioctl rejecting (legacy_request rejecting DRM_FORMAT_XRGB8888 fresh_bo)) < 0"
    by (simp add: rejecting_def)
  have d: "bo_destroy_user_data bound_bo \<and> \<not> bo_destroy_user_data fresh_bo"
    by (simp add: bound_bo_def fresh_bo_def)
  note inst = DrmFbGetFromBo_failure_leaves_buffer [OF gui_selected_format h2 fresh_bo_planes h4 h5,
      where w = empty_world and Q = legacy_only and b = fresh_bo and v = empty_world
        and r = "Some 1" and b' = bound_bo
        and v' = "bound_world\<lparr>calls := [modifier_request legacy_only DRM_FORMAT_XRGB8888 fresh_bo,
                              legacy_request legacy_only DRM_FORMAT_XRGB8888 fresh_bo]\<rparr>"]
  have same: "empty_world\<lparr>heap := (heap empty_world)(new_drm_fb rejecting := None),
       calls := calls empty_world @ [modifier_request rejecting DRM_FORMAT_XRGB8888 fresh_bo,
                              legacy_request rejecting DRM_FORMAT_XRGB8888 fresh_bo]\<rparr> =
     empty_world\<lparr>calls := [modifier_request rejecting DRM_FORMAT_XRGB8888 fresh_bo,
                              legacy_request rejecting DRM_FORMAT_XRGB8888 fresh_bo]\<rparr>"
    by (simp add: empty_world_def)
  from inst [THEN conjunct1] same
  have run: "DrmFbGetFromBo gui_selected rejecting fresh_bo empty_world =
     Returns (None, fresh_bo,
       empty_world\<lparr>calls := [modifier_request rejecting DRM_FORMAT_XRGB8888 fresh_bo,
                              legacy_request rejecting DRM_FORMAT_XRGB8888 fresh_bo]\<rparr>)"
    by simp
  from inst [THEN conjunct2, THEN conjunct2] legacy_only_run d
  have "\<not> (fst (ioctl legacy_only (modifier_request legacy_only DRM_FORMAT_XRGB8888 fresh_bo)) < 0 \<and>
           fst (ioctl legacy_only (legacy_request legacy_only DRM_FORMAT_XRGB8888 fresh_bo)) < 0)"
    by blast
  with legacy_only_answers
  have "\<not> fst (ioctl legacy_only (legacy_request legacy_only DRM_FORMAT_XRGB8888 fresh_bo)) < 0"
    by blast
  with gui_selected_format h2 h4 h5 run legacy_only_run d show ?thesis by simp
qed


end
